theory Spec2Isabelle
  imports
    Main
    "HOL-Library.Char_ord"
    "HOL-Library.List_Lexorder"
    "HOL-Library.Product_Lexorder"
    "HOL-Library.Multiset"
begin

section \<open>Values at the HTTP boundary\<close>

text \<open>
  Both versions of \<^verbatim>\<open>server.js\<close> read fields of a JSON body or of the query
  string and test them with \<^verbatim>\<open>!x\<close> and \<^verbatim>\<open>x || d\<close>. A field is modelled as
  \<open>string option\<close>: \<open>None\<close> is a field that is absent (\<^verbatim>\<open>undefined\<close> or \<^verbatim>\<open>null\<close>),
  \<open>Some s\<close> the string \<open>s\<close>. Numbers, booleans and nested values in a request are
  outside the model: what a database column does with them is decided by the database
  engine. The body itself is taken as parsed into an object.
  Strings are compared byte by byte (the order of \<^verbatim>\<open>TEXT\<close> columns in SQLite), which
  on dates written \<^verbatim>\<open>YYYY-MM-DD\<close> and times written \<^verbatim>\<open>HH:MM\<close> is the calendar order.
\<close>

type_synonym field = "string option"

definition falsy :: "field \<Rightarrow> bool" where
  \<comment> \<open>\<^verbatim>\<open>!x\<close>\<close>
  "falsy x \<longleftrightarrow> x = None \<or> x = Some []"

definition or_null :: "field \<Rightarrow> string option" where
  \<comment> \<open>\<^verbatim>\<open>x || null\<close>\<close>
  "or_null x = (if falsy x then None else x)"

definition or_empty :: "field \<Rightarrow> string option" where
  \<comment> \<open>\<^verbatim>\<open>x || ""\<close>\<close>
  "or_empty x = (if falsy x then Some [] else x)"

datatype json =
    JNull
  | JBool bool
  | JNum nat
  | JStr string
  | JArr "json list"
  | JObj "(string \<times> json) list"

fun keys :: "json \<Rightarrow> string list" where
  "keys (JObj kvs) = map fst kvs"
| "keys _ = []"

record response =
  status :: nat
  body :: json

definition reply :: "nat \<Rightarrow> json \<Rightarrow> response" where
  \<comment> \<open>\<^verbatim>\<open>res.status(c).json(b)\<close>; \<^verbatim>\<open>res.json(b)\<close> is \<open>reply 200 b\<close>\<close>
  "reply c b = \<lparr>status = c, body = b\<rparr>"

definition error_json :: "string \<Rightarrow> json" where
  "error_json m = JObj [(''error'', JStr m)]"

definition success_json :: json where
  "success_json = JObj [(''success'', JBool True)]"

section \<open>The two tables\<close>

record event =
  event_id :: nat
  date :: string
  time :: string
  title :: string
  channel :: "string option"
  platform :: "string option"
  event_notes :: "string option"
  created_at :: string
  created_by :: "nat option"

text \<open>
  A row of \<^verbatim>\<open>marketing_users\<close>, and the part of it that login keeps in the session.
\<close>

record session_user =
  user_id :: nat
  email :: string
  role :: string

record user = session_user +
  password :: string
  active :: bool

text \<open>
  A table of events is the list of its rows in the order of insertion, with the largest
  id the table has handed out (SQLite's \<^verbatim>\<open>sqlite_sequence\<close> of an
  \<^verbatim>\<open>AUTOINCREMENT\<close> key). The table \<^verbatim>\<open>events\<close> of the SQLite version has no column
  \<^verbatim>\<open>created_by\<close>: its rows carry \<open>None\<close> there and their JSON form leaves the key out.
\<close>

record table =
  rows :: "event list"
  last_id :: nat

definition next_id :: "table \<Rightarrow> nat" where
  "next_id t = Suc (fold max (map event_id (rows t)) (last_id t))"

definition insert_row ::
  "string \<Rightarrow> string \<Rightarrow> string \<Rightarrow> string option \<Rightarrow> string option \<Rightarrow> string option
    \<Rightarrow> nat option \<Rightarrow> string \<Rightarrow> table \<Rightarrow> event \<times> table" where
  \<comment> \<open>the store assigns \<open>id\<close> and \<open>created_at\<close> (the clock reading \<open>now\<close>)\<close>
  "insert_row d t ti ch pl no cb now tb =
     (let r = \<lparr>event_id = next_id tb, date = d, time = t, title = ti, channel = ch,
                platform = pl, event_notes = no, created_at = now, created_by = cb\<rparr>
      in (r, \<lparr>rows = rows tb @ [r], last_id = event_id r\<rparr>))"

definition set_columns ::
  "string \<Rightarrow> string \<Rightarrow> string \<Rightarrow> string option \<Rightarrow> string option \<Rightarrow> string option
    \<Rightarrow> event \<Rightarrow> event" where
  \<comment> \<open>the six columns both \<^verbatim>\<open>UPDATE\<close>s assign\<close>
  "set_columns d t ti ch pl no r =
     r\<lparr>date := d, time := t, title := ti, channel := ch, platform := pl, event_notes := no\<rparr>"

fun opt_json :: "string option \<Rightarrow> json" where
  "opt_json None = JNull"
| "opt_json (Some s) = JStr s"

definition event_json_sqlite :: "event \<Rightarrow> json" where
  "event_json_sqlite r = JObj
     [(''id'', JNum (event_id r)), (''date'', JStr (date r)), (''time'', JStr (time r)),
      (''title'', JStr (title r)), (''channel'', opt_json (channel r)),
      (''platform'', opt_json (platform r)), (''notes'', opt_json (event_notes r)),
      (''created_at'', JStr (created_at r))]"

definition event_json :: "event \<Rightarrow> json" where
  "event_json r = JObj
     [(''id'', JNum (event_id r)), (''date'', JStr (date r)), (''time'', JStr (time r)),
      (''title'', JStr (title r)), (''channel'', opt_json (channel r)),
      (''platform'', opt_json (platform r)), (''notes'', opt_json (event_notes r)),
      (''created_at'', JStr (created_at r)),
      (''created_by'', (case created_by r of None \<Rightarrow> JNull | Some u \<Rightarrow> JNum u))]"

section \<open>The Supabase client\<close>

text \<open>
  A query of the Supabase client is built by chaining filters and orderings and is then
  run against a table: the rows that pass every filter, ordered by the \<^verbatim>\<open>order\<close> columns
  with the first one most significant. Rows that agree on every ordering column keep
  their stored order here; SQL leaves their order open, so the stored order of a table
  stands for whatever order the engine gives to such rows.
\<close>

record 'r query =
  conds :: "('r \<Rightarrow> bool) list"
  orders :: "('r \<Rightarrow> string) list"

definition from_table :: "'r query" where
  "from_table = \<lparr>conds = [], orders = []\<rparr>"

definition q_eq :: "('r \<Rightarrow> 'v) \<Rightarrow> 'v \<Rightarrow> 'r query \<Rightarrow> 'r query" where
  "q_eq col v q = q\<lparr>conds := conds q @ [\<lambda>r. col r = v]\<rparr>"

definition q_gte :: "('r \<Rightarrow> string) \<Rightarrow> string \<Rightarrow> 'r query \<Rightarrow> 'r query" where
  "q_gte col v q = q\<lparr>conds := conds q @ [\<lambda>r. v \<le> col r]\<rparr>"

definition q_lte :: "('r \<Rightarrow> string) \<Rightarrow> string \<Rightarrow> 'r query \<Rightarrow> 'r query" where
  "q_lte col v q = q\<lparr>conds := conds q @ [\<lambda>r. col r \<le> v]\<rparr>"

definition q_order :: "('r \<Rightarrow> string) \<Rightarrow> 'r query \<Rightarrow> 'r query" where
  "q_order col q = q\<lparr>orders := orders q @ [col]\<rparr>"

definition matches :: "'r query \<Rightarrow> 'r \<Rightarrow> bool" where
  "matches q r = list_all (\<lambda>c. c r) (conds q)"

definition q_select :: "'r query \<Rightarrow> 'r list \<Rightarrow> 'r list" where
  "q_select q xs = sort_key (\<lambda>r. map (\<lambda>c. c r) (orders q)) (filter (matches q) xs)"

definition q_update :: "'r query \<Rightarrow> ('r \<Rightarrow> 'r) \<Rightarrow> 'r list \<Rightarrow> 'r list \<times> 'r list" where
  \<comment> \<open>the updated rows (what \<^verbatim>\<open>.select("*")\<close> returns) and the new table contents\<close>
  "q_update q f xs =
     (map f (filter (matches q) xs), map (\<lambda>r. if matches q r then f r else r) xs)"

definition q_delete :: "'r query \<Rightarrow> 'r list \<Rightarrow> nat \<times> 'r list" where
  \<comment> \<open>the exact count of deleted rows and the new table contents\<close>
  "q_delete q xs = (length (filter (matches q) xs), filter (\<lambda>r. \<not> matches q r) xs)"

fun single :: "'a list \<Rightarrow> unit + 'a" where
  "single [x] = Inr x"
| "single _ = Inl ()"

fun maybeSingle :: "'a list \<Rightarrow> unit + 'a option" where
  "maybeSingle [] = Inr None"
| "maybeSingle [x] = Inr (Some x)"
| "maybeSingle _ = Inl ()"

section \<open>Messages\<close>

text \<open>The two accented letters are written as their UTF-8 bytes.\<close>

definition msg_no_autenticado :: string where
  "msg_no_autenticado = ''No autenticado''"

definition msg_no_autorizado :: string where
  "msg_no_autorizado = ''No autorizado (se requiere admin)''"

definition msg_login_obligatorios :: string where
  "msg_login_obligatorios =
     ''Email y contrase'' @ [CHR 0xC3, CHR 0xB1] @ ''a son obligatorios.''"

definition msg_error_interno :: string where
  "msg_error_interno = ''Error interno''"

definition msg_credenciales :: string where
  "msg_credenciales = ''Credenciales inv'' @ [CHR 0xC3, CHR 0xA1] @ ''lidas''"

definition msg_parametros :: string where
  "msg_parametros =
     ''Los par'' @ [CHR 0xC3, CHR 0xA1] @ ''metros 'start' y 'end' son obligatorios.''"

definition msg_parametros_sqlite :: string where
  "msg_parametros_sqlite =
     ''Los par'' @ [CHR 0xC3, CHR 0xA1]
       @ ''metros 'start' y 'end' son obligatorios (YYYY-MM-DD).''"

definition msg_campos :: string where
  "msg_campos = ''Los campos 'date', 'time' y 'title' son obligatorios.''"

definition msg_crear :: string where
  "msg_crear = ''Error al crear evento''"

definition msg_actualizar :: string where
  "msg_actualizar = ''Error al actualizar evento''"

definition msg_no_encontrado :: string where
  "msg_no_encontrado = ''Evento no encontrado''"

section \<open>The version with Supabase and login\<close>

text \<open>
  The state a request sees: \<^verbatim>\<open>req.session.user\<close> of the client's session and the two
  tables. A handler returns its response and the state it leaves. The store of the model
  answers every query: of the \<^verbatim>\<open>error\<close> results and exceptions that lead to status 500,
  the model has those that the code itself can bring about (\<^verbatim>\<open>single\<close> and
  \<^verbatim>\<open>maybeSingle\<close> on the wrong number of rows, reading \<^verbatim>\<open>id\<close> of a missing user).
\<close>

record server =
  session :: "session_user option"
  marketing_users :: "user list"
  marketing_events :: table

record event_body =
  b_date :: field
  b_time :: field
  b_title :: field
  b_channel :: field
  b_platform :: field
  b_notes :: field

text \<open>\<^verbatim>\<open>requireAuth\<close>, lines 57 to 62.\<close>

definition requireAuth :: "server \<Rightarrow> response option" where
  \<comment> \<open>\<open>Some r\<close>: the guard has answered \<open>r\<close>; \<open>None\<close>: it has called \<^verbatim>\<open>next()\<close>\<close>
  "requireAuth s =
     (case session s of
        None \<Rightarrow> Some (reply 401 (error_json msg_no_autenticado))
      | Some u \<Rightarrow> None)"

text \<open>\<^verbatim>\<open>requireAdmin\<close>, lines 64 to 72.\<close>

definition requireAdmin :: "server \<Rightarrow> response option" where
  "requireAdmin s =
     (case session s of
        None \<Rightarrow> Some (reply 401 (error_json msg_no_autenticado))
      | Some u \<Rightarrow>
          if role u \<noteq> ''admin'' then Some (reply 403 (error_json msg_no_autorizado))
          else None)"

definition guarded ::
  "(server \<Rightarrow> response option) \<Rightarrow> (server \<Rightarrow> response \<times> server) \<Rightarrow> server
    \<Rightarrow> response \<times> server" where
  \<comment> \<open>\<^verbatim>\<open>app.METHOD(path, guard, handler)\<close>\<close>
  "guarded g h s = (case g s of Some r \<Rightarrow> (r, s) | None \<Rightarrow> h s)"

text \<open>\<^verbatim>\<open>POST /api/login\<close>, lines 79 to 126.\<close>

definition login :: "field \<Rightarrow> field \<Rightarrow> server \<Rightarrow> response \<times> server" where
  "login em pw s =
     (if falsy em \<or> falsy pw then (reply 400 (error_json msg_login_obligatorios), s)
      else
        case maybeSingle (q_select (q_eq email (the em) from_table) (marketing_users s)) of
          Inl e \<Rightarrow> (reply 500 (error_json msg_error_interno), s)
        | Inr None \<Rightarrow> (reply 401 (error_json msg_credenciales), s)
        | Inr (Some u) \<Rightarrow>
            if \<not> active u then (reply 401 (error_json msg_credenciales), s)
            else if Some (password u) \<noteq> pw then (reply 401 (error_json msg_credenciales), s)
            else
              (reply 200 (JObj [(''id'', JNum (user_id u)), (''email'', JStr (email u)),
                                (''role'', JStr (role u))]),
               s\<lparr>session := Some \<lparr>user_id = user_id u, email = email u, role = role u\<rparr>\<rparr>))"

text \<open>\<^verbatim>\<open>POST /api/logout\<close>, lines 129 to 133.\<close>

definition logout :: "server \<Rightarrow> response \<times> server" where
  "logout s = (reply 200 success_json, s\<lparr>session := None\<rparr>)"

text \<open>The handler of \<^verbatim>\<open>GET /api/events\<close>, lines 140 to 168.\<close>

definition get_events :: "field \<Rightarrow> field \<Rightarrow> server \<Rightarrow> response \<times> server" where
  "get_events start end' s =
     (if falsy start \<or> falsy end' then (reply 400 (error_json msg_parametros), s)
      else
        let data = q_select
              (q_order time (q_order date
                 (q_lte date (the end') (q_gte date (the start) from_table))))
              (rows (marketing_events s))
        in (reply 200 (JArr (map event_json data)), s))"

text \<open>The handler of \<^verbatim>\<open>POST /api/events\<close>, lines 172 to 206.\<close>

definition post_events :: "event_body \<Rightarrow> string \<Rightarrow> server \<Rightarrow> response \<times> server" where
  \<comment> \<open>\<open>now\<close> is the clock the store reads for \<open>created_at\<close>; reading
      \<^verbatim>\<open>req.session.user.id\<close> of a missing user throws inside the \<^verbatim>\<open>try\<close>\<close>
  "post_events b now s =
     (if falsy (b_date b) \<or> falsy (b_time b) \<or> falsy (b_title b)
      then (reply 400 (error_json msg_campos), s)
      else
        case session s of
          None \<Rightarrow> (reply 500 (error_json msg_crear), s)
        | Some u \<Rightarrow>
            let (r, tb) = insert_row (the (b_date b)) (the (b_time b)) (the (b_title b))
                            (or_null (b_channel b)) (or_null (b_platform b))
                            (or_null (b_notes b)) (Some (user_id u)) now (marketing_events s)
            in (case single [r] of
                  Inl e \<Rightarrow> (reply 500 (error_json msg_crear), s\<lparr>marketing_events := tb\<rparr>)
                | Inr data \<Rightarrow> (reply 201 (event_json data), s\<lparr>marketing_events := tb\<rparr>)))"

text \<open>The handler of \<^verbatim>\<open>PUT /api/events/:id\<close>, lines 209 to 248.\<close>

definition put_events :: "nat \<Rightarrow> event_body \<Rightarrow> server \<Rightarrow> response \<times> server" where
  \<comment> \<open>on more than one updated row the request for a single object is refused and the
      update is not committed\<close>
  "put_events i b s =
     (if falsy (b_date b) \<or> falsy (b_time b) \<or> falsy (b_title b)
      then (reply 400 (error_json msg_campos), s)
      else
        let (data, rs) = q_update (q_eq event_id i from_table)
                           (set_columns (the (b_date b)) (the (b_time b)) (the (b_title b))
                              (or_null (b_channel b)) (or_null (b_platform b))
                              (or_null (b_notes b)))
                           (rows (marketing_events s));
            s' = s\<lparr>marketing_events := (marketing_events s)\<lparr>rows := rs\<rparr>\<rparr>
        in case maybeSingle data of
             Inl e \<Rightarrow> (reply 500 (error_json msg_actualizar), s)
           | Inr None \<Rightarrow> (reply 404 (error_json msg_no_encontrado), s')
           | Inr (Some d) \<Rightarrow> (reply 200 (event_json d), s'))"

text \<open>The handler of \<^verbatim>\<open>DELETE /api/events/:id\<close>, lines 251 to 274.\<close>

definition delete_events :: "nat \<Rightarrow> server \<Rightarrow> response \<times> server" where
  "delete_events i s =
     (let (count, rs) = q_delete (q_eq event_id i from_table) (rows (marketing_events s));
          s' = s\<lparr>marketing_events := (marketing_events s)\<lparr>rows := rs\<rparr>\<rparr>
      in if count = 0 then (reply 404 (error_json msg_no_encontrado), s')
         else (reply 200 success_json, s'))"

text \<open>The routes as they are registered, each behind its guard.\<close>

definition get_events_route :: "field \<Rightarrow> field \<Rightarrow> server \<Rightarrow> response \<times> server" where
  "get_events_route start end' = guarded requireAuth (get_events start end')"

definition post_events_route :: "event_body \<Rightarrow> string \<Rightarrow> server \<Rightarrow> response \<times> server" where
  "post_events_route b now = guarded requireAuth (post_events b now)"

definition put_events_route :: "nat \<Rightarrow> event_body \<Rightarrow> server \<Rightarrow> response \<times> server" where
  "put_events_route i b = guarded requireAuth (put_events i b)"

definition delete_events_route :: "nat \<Rightarrow> server \<Rightarrow> response \<times> server" where
  "delete_events_route i = guarded requireAdmin (delete_events i)"

text \<open>The part of a stored user that login hands out.\<close>

definition projection :: "user \<Rightarrow> session_user" where
  "projection u = \<lparr>user_id = user_id u, email = email u, role = role u\<rparr>"

section \<open>The version with SQLite and no login\<close>

text \<open>
  The state is the table \<^verbatim>\<open>events\<close>. Each prepared statement is written out as the
  list operation it stands for; \<^verbatim>\<open>.get\<close> returns the first row found, or
  \<^verbatim>\<open>undefined\<close>, which \<^verbatim>\<open>res.json\<close> sends as an empty body (\<open>JNull\<close> here).
\<close>

text \<open>\<^verbatim>\<open>GET /api/events\<close>, lines 327 to 348.\<close>

definition get_events_sqlite :: "field \<Rightarrow> field \<Rightarrow> table \<Rightarrow> response \<times> table" where
  "get_events_sqlite start end' db =
     (if falsy start \<or> falsy end' then (reply 400 (error_json msg_parametros_sqlite), db)
      else
        let events = sort_key (\<lambda>r. (date r, time r))
                       (filter (\<lambda>r. the start \<le> date r \<and> date r \<le> the end') (rows db))
        in (reply 200 (JArr (map event_json_sqlite events)), db))"

text \<open>\<^verbatim>\<open>POST /api/events\<close>, lines 352 to 377.\<close>

definition post_events_sqlite :: "event_body \<Rightarrow> string \<Rightarrow> table \<Rightarrow> response \<times> table" where
  "post_events_sqlite b now db =
     (if falsy (b_date b) \<or> falsy (b_time b) \<or> falsy (b_title b)
      then (reply 400 (error_json msg_campos), db)
      else
        let (r, db') = insert_row (the (b_date b)) (the (b_time b)) (the (b_title b))
                         (or_empty (b_channel b)) (or_empty (b_platform b))
                         (or_empty (b_notes b)) None now db;
            lastInsertRowid = event_id r
        in case find (\<lambda>x. event_id x = lastInsertRowid) (rows db') of
             None \<Rightarrow> (reply 201 JNull, db')
           | Some newEvent \<Rightarrow> (reply 201 (event_json_sqlite newEvent), db'))"

text \<open>\<^verbatim>\<open>PUT /api/events/:id\<close>, lines 380 to 416.\<close>

definition put_events_sqlite :: "nat \<Rightarrow> event_body \<Rightarrow> table \<Rightarrow> response \<times> table" where
  "put_events_sqlite i b db =
     (if falsy (b_date b) \<or> falsy (b_time b) \<or> falsy (b_title b)
      then (reply 400 (error_json msg_campos), db)
      else
        let changes = length (filter (\<lambda>r. event_id r = i) (rows db));
            db' = db\<lparr>rows := map (\<lambda>r. if event_id r = i
                     then set_columns (the (b_date b)) (the (b_time b)) (the (b_title b))
                            (or_empty (b_channel b)) (or_empty (b_platform b))
                            (or_empty (b_notes b)) r
                     else r) (rows db)\<rparr>
        in if changes = 0 then (reply 404 (error_json msg_no_encontrado), db')
           else case find (\<lambda>x. event_id x = i) (rows db') of
                  None \<Rightarrow> (reply 200 JNull, db')
                | Some updated \<Rightarrow> (reply 200 (event_json_sqlite updated), db'))"

text \<open>\<^verbatim>\<open>DELETE /api/events/:id\<close>, lines 419 to 434.\<close>

definition delete_events_sqlite :: "nat \<Rightarrow> table \<Rightarrow> response \<times> table" where
  "delete_events_sqlite i db =
     (let changes = length (filter (\<lambda>r. event_id r = i) (rows db));
          db' = db\<lparr>rows := filter (\<lambda>r. event_id r \<noteq> i) (rows db)\<rparr>
      in if changes = 0 then (reply 404 (error_json msg_no_encontrado), db')
         else (reply 200 success_json, db'))"

section \<open>Sample data\<close>

definition ana :: user where
  "ana = \<lparr>user_id = 1, email = ''ana@wfg.test'', role = ''admin'',
           password = ''s3creto'', active = True\<rparr>"

definition beto :: user where
  "beto = \<lparr>user_id = 2, email = ''beto@wfg.test'', role = ''user'',
            password = ''clave'', active = True\<rparr>"

definition carla :: user where
  "carla = \<lparr>user_id = 3, email = ''carla@wfg.test'', role = ''user'',
             password = ''otra'', active = False\<rparr>"

definition historia :: event where
  "historia = \<lparr>event_id = 1, date = ''2024-06-01'', time = ''09:00'',
                title = ''Historia IG'', channel = None, platform = None,
                event_notes = None, created_at = ''2024-05-20 10:00:00'',
                created_by = Some 1\<rparr>"

definition reel :: event where
  "reel = \<lparr>event_id = 2, date = ''2024-05-01'', time = ''10:00'',
            title = ''Reel promo'', channel = Some ''Reel'', platform = Some ''Instagram'',
            event_notes = None, created_at = ''2024-05-20 10:05:00'',
            created_by = Some 2\<rparr>"

definition tiktok :: event where
  "tiktok = \<lparr>event_id = 3, date = ''2024-06-01'', time = ''08:00'',
              title = ''TikTok'', channel = None, platform = Some ''TikTok'',
              event_notes = Some ''borrador'', created_at = ''2024-05-21 09:00:00'',
              created_by = Some 1\<rparr>"

definition sample_table :: table where
  "sample_table = \<lparr>rows = [historia, reel, tiktok], last_id = 3\<rparr>"

definition empty_table :: table where
  "empty_table = \<lparr>rows = [], last_id = 0\<rparr>"

definition sample_server :: server where
  "sample_server =
     \<lparr>session = Some \<lparr>user_id = 1, email = ''ana@wfg.test'', role = ''admin''\<rparr>,
      marketing_users = [ana, beto, carla], marketing_events = sample_table\<rparr>"

definition launch_post :: event_body where
  "launch_post = \<lparr>b_date = Some ''2024-06-01'', b_time = Some ''09:00'',
                   b_title = Some ''Launch post'', b_channel = None, b_platform = None,
                   b_notes = None\<rparr>"

definition untitled :: event_body where
  "untitled = \<lparr>b_date = Some ''2024-06-01'', b_time = Some ''09:00'', b_title = Some [],
                b_channel = Some ''Reel'', b_platform = None, b_notes = None\<rparr>"

definition blank_channel :: event_body where
  "blank_channel = \<lparr>b_date = Some ''2024-06-02'', b_time = Some ''18:30'',
                     b_title = Some ''Sorteo'', b_channel = Some [],
                     b_platform = Some ''Instagram'', b_notes = Some ''con foto''\<rparr>"

definition anonymous :: server where
  "anonymous = \<lparr>session = None, marketing_users = [ana, beto, carla],
                 marketing_events = sample_table\<rparr>"

definition as_beto :: server where
  "as_beto = \<lparr>session = Some \<lparr>user_id = 2, email = ''beto@wfg.test'', role = ''user''\<rparr>,
               marketing_users = [ana, beto, carla], marketing_events = sample_table\<rparr>"

definition other_secrets :: server where
  "other_secrets =
     \<lparr>session = None,
      marketing_users = [ana, beto\<lparr>password := ''cambiada''\<rparr>, carla\<lparr>active := True\<rparr>],
      marketing_events = sample_table\<rparr>"




lemmas sample_defs =
  ana_def beto_def carla_def historia_def reel_def tiktok_def sample_table_def
  empty_table_def sample_server_def launch_post_def untitled_def blank_channel_def
  anonymous_def as_beto_def other_secrets_def

section \<open>Facts about the store\<close>

lemma insort_key_cong_le:
  assumes "\<And>x y. f x \<le> f y \<longleftrightarrow> g x \<le> g y"
  shows "insort_key f x xs = insort_key g x xs"
  by (induction xs) (simp_all add: assms)

lemma sort_key_cong_le:
  assumes "\<And>x y. f x \<le> f y \<longleftrightarrow> g x \<le> g y"
  shows "sort_key f xs = sort_key g xs"
  by (induction xs) (simp_all add: insort_key_cong_le [of f g, OF assms])

lemma key_list_le_pair:
  fixes a b c d :: string
  shows "[a, b] \<le> [c, d] \<longleftrightarrow> (a, b) \<le> (c, d)"
  by (auto simp: less_eq_prod_def)

lemma matches_conv: "matches q = (\<lambda>r. list_all (\<lambda>c. c r) (conds q))"
  by (rule ext) (simp add: matches_def)

text \<open>
  The chained query of the Supabase version is the \<^verbatim>\<open>SELECT\<close> of the SQLite version.
\<close>

lemma range_query:
  fixes xs :: "event list"
  shows "q_select (q_order time (q_order date (q_lte date b (q_gte date a from_table)))) xs
     = sort_key (\<lambda>r. (date r, time r)) (filter (\<lambda>r. a \<le> date r \<and> date r \<le> b) xs)"
proof -
  have "sort_key (\<lambda>r. [date r, time r]) ys = sort_key (\<lambda>r. (date r, time r)) ys" for ys
    by (rule sort_key_cong_le) (simp only: key_list_le_pair)
  then show ?thesis
    by (simp add: q_select_def q_order_def q_lte_def q_gte_def from_table_def matches_conv)
qed

lemma guarded_requireAuth: "session s = Some u \<Longrightarrow> guarded requireAuth h s = h s"
  by (simp add: guarded_def requireAuth_def)

lemma guarded_requireAdmin:
  "session s = Some u \<Longrightarrow> role u = ''admin'' \<Longrightarrow> guarded requireAdmin h s = h s"
  by (simp add: guarded_def requireAdmin_def)

lemma get_events_ok:
  "a \<noteq> [] \<Longrightarrow> b \<noteq> [] \<Longrightarrow>
   get_events (Some a) (Some b) s =
     (reply 200 (JArr (map event_json
        (sort_key (\<lambda>r. (date r, time r))
           (filter (\<lambda>r. a \<le> date r \<and> date r \<le> b) (rows (marketing_events s)))))), s)"
  by (simp add: get_events_def falsy_def range_query)

lemma get_events_sqlite_ok:
  "a \<noteq> [] \<Longrightarrow> b \<noteq> [] \<Longrightarrow>
   get_events_sqlite (Some a) (Some b) db =
     (reply 200 (JArr (map event_json_sqlite
        (sort_key (\<lambda>r. (date r, time r))
           (filter (\<lambda>r. a \<le> date r \<and> date r \<le> b) (rows db))))), db)"
  by (simp add: get_events_sqlite_def falsy_def)

lemma fold_max_ge_init: "(a::nat) \<le> fold max xs a"
  by (induction xs arbitrary: a) (auto intro: order_trans [OF max.cobounded2])

lemma fold_max_ge_elem: "(x::nat) \<in> set xs \<Longrightarrow> x \<le> fold max xs a"
proof (induction xs arbitrary: a)
  case Nil
  then show ?case by simp
next
  case (Cons y ys)
  show ?case
  proof (cases "x = y")
    case True
    have "y \<le> max y a" by simp
    also have "\<dots> \<le> fold max ys (max y a)" by (rule fold_max_ge_init)
    finally show ?thesis using True by simp
  next
    case False
    with Cons show ?thesis by simp
  qed
qed

lemma next_id_fresh: "r \<in> set (rows t) \<Longrightarrow> event_id r < next_id t"
  unfolding next_id_def
  by (rule le_imp_less_Suc) (rule fold_max_ge_elem, simp)

lemma find_append_last:
  "(\<forall>x \<in> set xs. \<not> P x) \<Longrightarrow> P y \<Longrightarrow> find P (xs @ [y]) = Some y"
  by (induction xs) simp_all

lemma post_events_sqlite_ok:
  assumes "\<not> falsy (b_date b)" "\<not> falsy (b_time b)" "\<not> falsy (b_title b)"
  shows "post_events_sqlite b now db =
    (let r = \<lparr>event_id = next_id db, date = the (b_date b), time = the (b_time b),
               title = the (b_title b), channel = or_empty (b_channel b),
               platform = or_empty (b_platform b), event_notes = or_empty (b_notes b),
               created_at = now, created_by = None\<rparr>
     in (reply 201 (event_json_sqlite r), \<lparr>rows = rows db @ [r], last_id = next_id db\<rparr>))"
proof -
  have "\<forall>x \<in> set (rows db). event_id x \<noteq> next_id db"
    using next_id_fresh [of _ db] by fastforce
  then show ?thesis
    using assms by (simp add: post_events_sqlite_def insert_row_def Let_def find_append_last)
qed

lemma post_events_ok:
  assumes "\<not> falsy (b_date b)" "\<not> falsy (b_time b)" "\<not> falsy (b_title b)"
    and "session s = Some u"
  shows "post_events b now s =
    (let r = \<lparr>event_id = next_id (marketing_events s), date = the (b_date b),
               time = the (b_time b), title = the (b_title b),
               channel = or_null (b_channel b), platform = or_null (b_platform b),
               event_notes = or_null (b_notes b), created_at = now,
               created_by = Some (user_id u)\<rparr>
     in (reply 201 (event_json r),
         s\<lparr>marketing_events :=
             \<lparr>rows = rows (marketing_events s) @ [r],
              last_id = next_id (marketing_events s)\<rparr>\<rparr>))"
  using assms by (simp add: post_events_def insert_row_def Let_def)

lemma find_map_same:
  "(\<And>x. P (g x) = P x) \<Longrightarrow> find P (map g xs) = map_option g (find P xs)"
  by (induction xs) simp_all

lemma same_key_same_row:
  "distinct (map f xs) \<Longrightarrow> r \<in> set xs \<Longrightarrow> x \<in> set xs \<Longrightarrow> f x = f r \<Longrightarrow> x = r"
  by (auto simp: distinct_map dest: inj_onD)

lemma filter_distinct_key:
  "distinct (map f xs) \<Longrightarrow> r \<in> set xs \<Longrightarrow> filter (\<lambda>x. f x = f r) xs = [r]"
proof (induction xs)
  case Nil
  then show ?case by simp
next
  case (Cons y ys)
  show ?case
  proof (cases "y = r")
    case True
    with Cons.prems have "\<forall>x \<in> set ys. f x \<noteq> f r" by (auto simp: image_iff)
    then have "filter (\<lambda>x. f x = f r) ys = []" by (simp add: filter_empty_conv)
    with True show ?thesis by simp
  next
    case False
    with Cons.prems have "r \<in> set ys" "f y \<noteq> f r" by auto
    with Cons show ?thesis by simp
  qed
qed

lemma find_distinct_key:
  "distinct (map f xs) \<Longrightarrow> r \<in> set xs \<Longrightarrow> find (\<lambda>x. f x = f r) xs = Some r"
proof (induction xs)
  case Nil
  then show ?case by simp
next
  case (Cons y ys)
  then show ?case by (cases "y = r") auto
qed

lemma map_if_none:
  "(\<forall>x \<in> set xs. \<not> P x) \<Longrightarrow> map (\<lambda>x. if P x then g x else x) xs = xs"
  by (induction xs) simp_all

lemma map_if_distinct_key:
  assumes "distinct (map f xs)" "r \<in> set xs"
  shows "map (\<lambda>x. if f x = f r then g x else x) xs = map (\<lambda>x. if f x = f r then g r else x) xs"
  using same_key_same_row [OF assms] by (intro map_cong) auto

lemma matches_eq_id: "matches (q_eq col v from_table) = (\<lambda>r. col r = v)"
  by (simp add: matches_conv q_eq_def from_table_def)

lemma event_id_set_columns [simp]: "event_id (set_columns d t ti ch pl no r) = event_id r"
  by (simp add: set_columns_def)

lemma put_events_sqlite_missing:
  assumes "\<not> falsy (b_date b)" "\<not> falsy (b_time b)" "\<not> falsy (b_title b)"
    and "\<forall>r \<in> set (rows db). event_id r \<noteq> i"
  shows "put_events_sqlite i b db = (reply 404 (error_json msg_no_encontrado), db)"
proof -
  from assms(4) have "filter (\<lambda>r. event_id r = i) (rows db) = []"
    by (simp add: filter_empty_conv)
  moreover from assms(4) have "map (\<lambda>r. if event_id r = i then g r else r) (rows db) = rows db" for g
    by (intro map_if_none) simp
  ultimately show ?thesis
    using assms(1-3) by (simp add: put_events_sqlite_def Let_def)
qed

lemma put_events_missing:
  assumes "\<not> falsy (b_date b)" "\<not> falsy (b_time b)" "\<not> falsy (b_title b)"
    and "\<forall>r \<in> set (rows (marketing_events s)). event_id r \<noteq> i"
  shows "put_events i b s = (reply 404 (error_json msg_no_encontrado), s)"
proof -
  from assms(4) have "filter (\<lambda>r. event_id r = i) (rows (marketing_events s)) = []"
    by (simp add: filter_empty_conv)
  moreover from assms(4)
  have "map (\<lambda>r. if event_id r = i then g r else r) (rows (marketing_events s))
          = rows (marketing_events s)" for g
    by (intro map_if_none) simp
  ultimately show ?thesis
    using assms(1-3) by (simp add: put_events_def q_update_def matches_eq_id Let_def)
qed

lemma put_events_sqlite_found:
  assumes "\<not> falsy (b_date b)" "\<not> falsy (b_time b)" "\<not> falsy (b_title b)"
    and "distinct (map event_id (rows db))" "r \<in> set (rows db)"
  shows "put_events_sqlite (event_id r) b db =
    (let r' = set_columns (the (b_date b)) (the (b_time b)) (the (b_title b))
                (or_empty (b_channel b)) (or_empty (b_platform b)) (or_empty (b_notes b)) r
     in (reply 200 (event_json_sqlite r'),
         db\<lparr>rows := map (\<lambda>x. if event_id x = event_id r then r' else x) (rows db)\<rparr>))"
proof -
  let ?g = "set_columns (the (b_date b)) (the (b_time b)) (the (b_title b))
                (or_empty (b_channel b)) (or_empty (b_platform b)) (or_empty (b_notes b))"
  let ?rs = "map (\<lambda>x. if event_id x = event_id r then ?g x else x) (rows db)"
  have "filter (\<lambda>x. event_id x = event_id r) (rows db) = [r]"
    using assms(4,5) by (rule filter_distinct_key)
  then have c: "length (filter (\<lambda>x. event_id x = event_id r) (rows db)) \<noteq> 0" by simp
  have m: "?rs = map (\<lambda>x. if event_id x = event_id r then ?g r else x) (rows db)"
    using assms(4,5) by (rule map_if_distinct_key)
  have "find (\<lambda>x. event_id x = event_id r) ?rs
          = map_option (\<lambda>x. if event_id x = event_id r then ?g x else x)
              (find (\<lambda>x. event_id x = event_id r) (rows db))"
    by (rule find_map_same) simp
  also have "find (\<lambda>x. event_id x = event_id r) (rows db) = Some r"
    using assms(4,5) by (rule find_distinct_key)
  finally have f: "find (\<lambda>x. event_id x = event_id r) ?rs = Some (?g r)" by simp
  show ?thesis
    using assms(1-3) c f unfolding put_events_sqlite_def Let_def m [symmetric] by simp
qed

lemma put_events_found:
  assumes "\<not> falsy (b_date b)" "\<not> falsy (b_time b)" "\<not> falsy (b_title b)"
    and "distinct (map event_id (rows (marketing_events s)))"
    and "r \<in> set (rows (marketing_events s))"
  shows "put_events (event_id r) b s =
    (let r' = set_columns (the (b_date b)) (the (b_time b)) (the (b_title b))
                (or_null (b_channel b)) (or_null (b_platform b)) (or_null (b_notes b)) r
     in (reply 200 (event_json r'),
         s\<lparr>marketing_events := (marketing_events s)
            \<lparr>rows := map (\<lambda>x. if event_id x = event_id r then r' else x)
                       (rows (marketing_events s))\<rparr>\<rparr>))"
proof -
  let ?g = "set_columns (the (b_date b)) (the (b_time b)) (the (b_title b))
                (or_null (b_channel b)) (or_null (b_platform b)) (or_null (b_notes b))"
  have f: "filter (\<lambda>x. event_id x = event_id r) (rows (marketing_events s)) = [r]"
    using assms(4,5) by (rule filter_distinct_key)
  have m: "map (\<lambda>x. if event_id x = event_id r then ?g x else x) (rows (marketing_events s))
         = map (\<lambda>x. if event_id x = event_id r then ?g r else x) (rows (marketing_events s))"
    using assms(4,5) by (rule map_if_distinct_key)
  show ?thesis
    using assms(1-3) f unfolding put_events_def q_update_def matches_eq_id Let_def m by simp
qed

lemma delete_events_sqlite_conv:
  "delete_events_sqlite i db =
     (if \<forall>r \<in> set (rows db). event_id r \<noteq> i
      then (reply 404 (error_json msg_no_encontrado), db)
      else (reply 200 success_json, db\<lparr>rows := filter (\<lambda>r. event_id r \<noteq> i) (rows db)\<rparr>))"
proof (cases "\<forall>r \<in> set (rows db). event_id r \<noteq> i")
  case True
  then have "filter (\<lambda>r. event_id r = i) (rows db) = []"
    and "filter (\<lambda>r. event_id r \<noteq> i) (rows db) = rows db"
    by (simp_all add: filter_empty_conv filter_id_conv)
  with True show ?thesis by (simp add: delete_events_sqlite_def Let_def)
next
  case False
  then have "filter (\<lambda>r. event_id r = i) (rows db) \<noteq> []"
    by (simp add: filter_empty_conv)
  with False show ?thesis by (auto simp: delete_events_sqlite_def Let_def)
qed

lemma delete_events_conv:
  "delete_events i s =
     (if \<forall>r \<in> set (rows (marketing_events s)). event_id r \<noteq> i
      then (reply 404 (error_json msg_no_encontrado), s)
      else (reply 200 success_json,
            s\<lparr>marketing_events := (marketing_events s)
               \<lparr>rows := filter (\<lambda>r. event_id r \<noteq> i) (rows (marketing_events s))\<rparr>\<rparr>))"
proof (cases "\<forall>r \<in> set (rows (marketing_events s)). event_id r \<noteq> i")
  case True
  then have "filter (\<lambda>r. event_id r = i) (rows (marketing_events s)) = []"
    and "filter (\<lambda>r. event_id r \<noteq> i) (rows (marketing_events s)) = rows (marketing_events s)"
    by (simp_all add: filter_empty_conv filter_id_conv)
  with True show ?thesis
    by (simp add: delete_events_def q_delete_def matches_eq_id Let_def)
next
  case False
  then have "filter (\<lambda>r. event_id r = i) (rows (marketing_events s)) \<noteq> []"
    by (simp add: filter_empty_conv)
  with False show ?thesis
    by (auto simp: delete_events_def q_delete_def matches_eq_id Let_def)
qed

lemma rows_after_delete_sqlite:
  "rows (snd (delete_events_sqlite i db)) = filter (\<lambda>r. event_id r \<noteq> i) (rows db)"
  by (simp add: delete_events_sqlite_def Let_def)

lemma rows_after_delete:
  "rows (marketing_events (snd (delete_events i s)))
     = filter (\<lambda>r. event_id r \<noteq> i) (rows (marketing_events s))"
  by (simp add: delete_events_def q_delete_def matches_eq_id Let_def)

lemma filter_distinct_cases:
  "distinct (map f xs) \<Longrightarrow>
   filter (\<lambda>x. f x = v) xs = [] \<or> (\<exists>r \<in> set xs. f r = v \<and> filter (\<lambda>x. f x = v) xs = [r])"
proof (cases "\<exists>r \<in> set xs. f r = v")
  case True
  then obtain r where r: "r \<in> set xs" "f r = v" by blast
  assume "distinct (map f xs)"
  from filter_distinct_key [OF this r(1)] r show ?thesis by blast
next
  case False
  then have "filter (\<lambda>x. f x = v) xs = []" by (simp add: filter_empty_conv)
  then show ?thesis by simp
qed

lemma user_query:
  "q_select (q_eq email e from_table) us = filter (\<lambda>u. email u = e) us"
proof -
  have "sort_key (\<lambda>r. []) ys = ys" for ys :: "'b list"
    by (rule sort_key_id_if_sorted) (induction ys, simp_all)
  then show ?thesis
    by (simp add: q_select_def matches_eq_id) (simp add: q_eq_def from_table_def)
qed

lemma login_found:
  assumes "e \<noteq> []" "p \<noteq> []"
    and "filter (\<lambda>u. email u = e) (marketing_users s) = [u]"
  shows "login (Some e) (Some p) s =
    (if \<not> active u \<or> password u \<noteq> p then (reply 401 (error_json msg_credenciales), s)
     else (reply 200 (JObj [(''id'', JNum (user_id u)), (''email'', JStr (email u)),
                            (''role'', JStr (role u))]),
           s\<lparr>session := Some \<lparr>user_id = user_id u, email = email u, role = role u\<rparr>\<rparr>))"
  using assms by (simp add: login_def falsy_def user_query)

lemma login_absent:
  assumes "e \<noteq> []" "p \<noteq> []"
    and "filter (\<lambda>u. email u = e) (marketing_users s) = []"
  shows "login (Some e) (Some p) s = (reply 401 (error_json msg_credenciales), s)"
  using assms by (simp add: login_def falsy_def user_query)

lemma status_reply [simp]: "status (reply c b) = c"
  and body_reply [simp]: "body (reply c b) = b"
  by (simp_all add: reply_def)

lemma login_missing:
  "falsy em \<or> falsy pw \<Longrightarrow> login em pw s = (reply 400 (error_json msg_login_obligatorios), s)"
  by (simp add: login_def)

lemma login_rows:
  assumes "\<not> falsy em" "\<not> falsy pw"
  shows "login em pw s =
    (case filter (\<lambda>u. Some (email u) = em) (marketing_users s) of
       [] \<Rightarrow> (reply 401 (error_json msg_credenciales), s)
     | [u] \<Rightarrow>
         if active u \<and> Some (password u) = pw
         then (reply 200 (JObj [(''id'', JNum (user_id u)), (''email'', JStr (email u)),
                                (''role'', JStr (role u))]),
               s\<lparr>session := Some (projection u)\<rparr>)
         else (reply 401 (error_json msg_credenciales), s)
     | _ \<Rightarrow> (reply 500 (error_json msg_error_interno), s))"
proof -
  from assms obtain e where e: "em = Some e" by (auto simp: falsy_def)
  let ?rs = "filter (\<lambda>u. Some (email u) = em) (marketing_users s)"
  have q: "q_select (q_eq email (the em) from_table) (marketing_users s) = ?rs"
    using e by (simp add: user_query)
  show ?thesis
    unfolding login_def q using assms
    by (cases ?rs rule: maybeSingle.cases) (simp_all add: projection_def)
qed

lemma projection_simps [simp]:
  "user_id (projection u) = user_id u" "email (projection u) = email u"
  "role (projection u) = role u"
  by (simp_all add: projection_def)

lemma projection_filter_email:
  "map projection (filter (\<lambda>u. Some (email u) = em) us)
     = filter (\<lambda>p. Some (email p) = em) (map projection us)"
  by (simp add: filter_map comp_def)

lemma login_outcomes:
  "login em pw s = (reply 400 (error_json msg_login_obligatorios), s)
   \<or> login em pw s = (reply 500 (error_json msg_error_interno), s)
   \<or> login em pw s = (reply 401 (error_json msg_credenciales), s)
   \<or> (\<exists>u \<in> set (marketing_users s).
        login em pw s
          = (reply 200 (JObj [(''id'', JNum (user_id u)), (''email'', JStr (email u)),
                              (''role'', JStr (role u))]),
             s\<lparr>session := Some (projection u)\<rparr>))"
proof (cases "falsy em \<or> falsy pw")
  case True
  then show ?thesis by (simp add: login_missing)
next
  case False
  let ?rs = "filter (\<lambda>u. Some (email u) = em) (marketing_users s)"
  from False have l: "login em pw s =
    (case ?rs of
       [] \<Rightarrow> (reply 401 (error_json msg_credenciales), s)
     | [u] \<Rightarrow>
         if active u \<and> Some (password u) = pw
         then (reply 200 (JObj [(''id'', JNum (user_id u)), (''email'', JStr (email u)),
                                (''role'', JStr (role u))]),
               s\<lparr>session := Some (projection u)\<rparr>)
         else (reply 401 (error_json msg_credenciales), s)
     | _ \<Rightarrow> (reply 500 (error_json msg_error_interno), s))"
    by (simp add: login_rows)
  show ?thesis
  proof (cases ?rs rule: maybeSingle.cases)
    case 1
    with l show ?thesis by simp
  next
    case (2 u)
    then have "u \<in> set ?rs" by simp
    then have "u \<in> set (marketing_users s)" by simp
    with l 2 show ?thesis by (cases "active u \<and> Some (password u) = pw") auto
  next
    case (3 u v ws)
    with l show ?thesis by simp
  qed
qed

lemma login_same_projection:
  assumes p: "map projection (marketing_users s) = map projection (marketing_users s')"
    and se: "session s = session s'"
    and st: "status (fst (login em pw s)) = status (fst (login em pw s'))"
  shows "body (fst (login em pw s)) = body (fst (login em pw s'))
         \<and> session (snd (login em pw s)) = session (snd (login em pw s'))"
proof (cases "falsy em \<or> falsy pw")
  case True
  with se show ?thesis by (simp add: login_missing)
next
  case False
  let ?rs = "filter (\<lambda>u. Some (email u) = em) (marketing_users s)"
  let ?rs' = "filter (\<lambda>u. Some (email u) = em) (marketing_users s')"
  from p have m: "map projection ?rs = map projection ?rs'"
    by (simp add: projection_filter_email)
  from False have l: "\<not> falsy em" "\<not> falsy pw" by simp_all
  show ?thesis
  proof (cases ?rs rule: maybeSingle.cases)
    case 1
    with m have "?rs' = []" by simp
    with 1 se show ?thesis by (simp add: login_rows [OF l])
  next
    case (2 u)
    with m obtain u' where u': "?rs' = [u']" "projection u = projection u'"
      by (cases ?rs') auto
    let ?ok = "active u \<and> Some (password u) = pw"
    let ?ok' = "active u' \<and> Some (password u') = pw"
    from u'(2) have eqs: "user_id u = user_id u'" "email u = email u'" "role u = role u'"
      by (metis projection_simps)+
    from 2 have r: "login em pw s =
        (if ?ok
         then (reply 200 (JObj [(''id'', JNum (user_id u)), (''email'', JStr (email u)),
                                (''role'', JStr (role u))]),
               s\<lparr>session := Some (projection u)\<rparr>)
         else (reply 401 (error_json msg_credenciales), s))"
      by (simp add: login_rows [OF l])
    from u'(1) have r': "login em pw s' =
        (if ?ok'
         then (reply 200 (JObj [(''id'', JNum (user_id u')), (''email'', JStr (email u')),
                                (''role'', JStr (role u'))]),
               s'\<lparr>session := Some (projection u')\<rparr>)
         else (reply 401 (error_json msg_credenciales), s'))"
      by (simp add: login_rows [OF l])
    from st have iff: "?ok \<longleftrightarrow> ?ok'"
      unfolding r r' by (auto split: if_splits)
    show ?thesis
    proof (cases ?ok)
      case True
      with iff have t': "?ok'" by simp
      show ?thesis
        unfolding r r' if_P [OF True] if_P [OF t'] by (simp add: eqs u'(2))
    next
      case False
      with iff have f': "\<not> ?ok'" by simp
      show ?thesis
        unfolding r r' if_not_P [OF False] if_not_P [OF f'] by (simp add: se)
    qed
  next
    case (3 u v ws)
    with m obtain u' v' ws' where "?rs' = u' # v' # ws'"
      by (cases ?rs'; cases "tl ?rs'") auto
    with 3 se show ?thesis by (simp add: login_rows [OF l])
  qed
qed

lemma listed_once:
  assumes fresh: "\<forall>x \<in> set xs. event_id x \<noteq> event_id r" and "P r"
  shows "filter (\<lambda>x. event_id x = event_id r) (sort_key k (filter P (xs @ [r]))) = [r]"
proof -
  from fresh have "filter (\<lambda>x. event_id x = event_id r) (filter P xs) = []"
    by (simp add: filter_empty_conv)
  with \<open>P r\<close> have "filter (\<lambda>x. event_id x = event_id r) (filter P (xs @ [r])) = [r]"
    by simp
  then show ?thesis by (simp add: filter_sort)
qed

lemma fresh_row:
  "event_id r = next_id t \<Longrightarrow> \<forall>x \<in> set (rows t). event_id x \<noteq> event_id r"
  using next_id_fresh [of _ t] by fastforce



section \<open>Listing events\<close>

text \<open>
  Claim C1. A request to list events that carries both bounds \<open>a\<close> and \<open>b\<close> is answered
  with status 200 and the stored events whose date lies in \<open>[a, b]\<close>, both ends included:
  each such event as often as it is stored and no other, in ascending order of
  (date, time). When no stored date lies in the range the answer is the empty array, still
  with status 200. When a bound is missing or empty the answer is status 400 whatever the
  table holds, so nothing is read from it. This holds for the list handler of the SQLite
  version and for the one of the Supabase version, which is what the Supabase route runs
  once \<^verbatim>\<open>requireAuth\<close> has let the request through.
\<close>

theorem list_events_range:
  "(a \<noteq> [] \<and> b \<noteq> [] \<longrightarrow>
      (\<exists>evs. get_events_sqlite (Some a) (Some b) db
                = (reply 200 (JArr (map event_json_sqlite evs)), db)
         \<and> mset evs = filter_mset (\<lambda>r. a \<le> date r \<and> date r \<le> b) (mset (rows db))
         \<and> sorted (map (\<lambda>r. (date r, time r)) evs))
    \<and> (\<exists>evs. get_events (Some a) (Some b) s = (reply 200 (JArr (map event_json evs)), s)
         \<and> mset evs = filter_mset (\<lambda>r. a \<le> date r \<and> date r \<le> b)
                         (mset (rows (marketing_events s)))
         \<and> sorted (map (\<lambda>r. (date r, time r)) evs))
    \<and> ((\<forall>r \<in> set (rows db). \<not> (a \<le> date r \<and> date r \<le> b)) \<longrightarrow>
         get_events_sqlite (Some a) (Some b) db = (reply 200 (JArr []), db))
    \<and> ((\<forall>r \<in> set (rows (marketing_events s)). \<not> (a \<le> date r \<and> date r \<le> b)) \<longrightarrow>
         get_events (Some a) (Some b) s = (reply 200 (JArr []), s)))
   \<and> (falsy start \<or> falsy end' \<longrightarrow>
        get_events_sqlite start end' db = (reply 400 (error_json msg_parametros_sqlite), db)
      \<and> get_events start end' s = (reply 400 (error_json msg_parametros), s))
   \<and> (session s \<noteq> None \<longrightarrow> get_events_route start end' s = get_events start end' s)"
proof (intro conjI impI)
  assume ne: "a \<noteq> [] \<and> b \<noteq> []"
  let ?P = "\<lambda>r. a \<le> date r \<and> date r \<le> b"
  let ?k = "\<lambda>r. (date r, time r)"
  show "\<exists>evs. get_events_sqlite (Some a) (Some b) db
                = (reply 200 (JArr (map event_json_sqlite evs)), db)
         \<and> mset evs = filter_mset ?P (mset (rows db)) \<and> sorted (map ?k evs)"
    using ne
    by (intro exI [of _ "sort_key ?k (filter ?P (rows db))"]) (simp add: get_events_sqlite_ok)
  show "\<exists>evs. get_events (Some a) (Some b) s = (reply 200 (JArr (map event_json evs)), s)
         \<and> mset evs = filter_mset ?P (mset (rows (marketing_events s))) \<and> sorted (map ?k evs)"
    using ne
    by (intro exI [of _ "sort_key ?k (filter ?P (rows (marketing_events s)))"])
       (simp add: get_events_ok)
  show "get_events_sqlite (Some a) (Some b) db = (reply 200 (JArr []), db)"
    if "\<forall>r \<in> set (rows db). \<not> ?P r"
  proof -
    from that have "filter ?P (rows db) = []" by (simp add: filter_empty_conv)
    with ne show ?thesis by (simp add: get_events_sqlite_ok)
  qed
  show "get_events (Some a) (Some b) s = (reply 200 (JArr []), s)"
    if "\<forall>r \<in> set (rows (marketing_events s)). \<not> ?P r"
  proof -
    from that have "filter ?P (rows (marketing_events s)) = []"
      by (simp add: filter_empty_conv)
    with ne show ?thesis by (simp add: get_events_ok)
  qed
next
  assume "falsy start \<or> falsy end'"
  then show "get_events_sqlite start end' db
               = (reply 400 (error_json msg_parametros_sqlite), db)"
    and "get_events start end' s = (reply 400 (error_json msg_parametros), s)"
    by (simp_all add: get_events_sqlite_def get_events_def)
next
  assume "session s \<noteq> None"
  then show "get_events_route start end' s = get_events start end' s"
    by (auto simp: get_events_route_def guarded_requireAuth)
qed

text \<open>
  A list over June 2024 and one over January 2025, where nothing is stored, on the sample
  table; and a request without \<^verbatim>\<open>start\<close>.
\<close>

theorem list_events_range_witness:
  "''2024-06-01'' \<noteq> [] \<and> ''2024-06-30'' \<noteq> [] \<and> session sample_server \<noteq> None \<and> falsy None
   \<and> (\<exists>evs. get_events_sqlite (Some ''2024-06-01'') (Some ''2024-06-30'') sample_table
                = (reply 200 (JArr (map event_json_sqlite evs)), sample_table)
         \<and> mset evs = filter_mset (\<lambda>r. ''2024-06-01'' \<le> date r \<and> date r \<le> ''2024-06-30'')
                         (mset (rows sample_table))
         \<and> sorted (map (\<lambda>r. (date r, time r)) evs))
   \<and> (\<exists>evs. get_events_route (Some ''2024-06-01'') (Some ''2024-06-30'') sample_server
                = (reply 200 (JArr (map event_json evs)), sample_server)
         \<and> mset evs = filter_mset (\<lambda>r. ''2024-06-01'' \<le> date r \<and> date r \<le> ''2024-06-30'')
                         (mset (rows (marketing_events sample_server)))
         \<and> sorted (map (\<lambda>r. (date r, time r)) evs))
   \<and> get_events_sqlite None (Some ''2024-06-30'') sample_table
        = (reply 400 (error_json msg_parametros_sqlite), sample_table)
   \<and> get_events_route None (Some ''2024-06-30'') sample_server
        = (reply 400 (error_json msg_parametros), sample_server)
   \<and> get_events_sqlite (Some ''2025-01-01'') (Some ''2025-01-31'') sample_table
        = (reply 200 (JArr []), sample_table)
   \<and> get_events_route (Some ''2025-01-01'') (Some ''2025-01-31'') sample_server
        = (reply 200 (JArr []), sample_server)"
proof -
  have h: "''2024-06-01'' \<noteq> [] \<and> ''2024-06-30'' \<noteq> []"
    "''2025-01-01'' \<noteq> [] \<and> ''2025-01-31'' \<noteq> []"
    "session sample_server \<noteq> None" "falsy None \<or> falsy (Some ''2024-06-30'')"
    by (simp_all add: sample_server_def falsy_def)
  have e1: "\<forall>r \<in> set (rows sample_table).
              \<not> (''2025-01-01'' \<le> date r \<and> date r \<le> ''2025-01-31'')"
    by (simp add: sample_defs)
  have e2: "\<forall>r \<in> set (rows (marketing_events sample_server)).
              \<not> (''2025-01-01'' \<le> date r \<and> date r \<le> ''2025-01-31'')"
    by (simp add: sample_defs)
  note t1 = list_events_range [where a = "''2024-06-01''" and b = "''2024-06-30''"
      and db = sample_table and s = sample_server and start = "Some ''2024-06-01''"
      and end' = "Some ''2024-06-30''"]
  note t2 = list_events_range [where a = "''2025-01-01''" and b = "''2025-01-31''"
      and db = sample_table and s = sample_server and start = "Some ''2025-01-01''"
      and end' = "Some ''2025-01-31''"]
  note t3 = list_events_range [where a = "''2024-06-01''" and b = "''2024-06-30''"
      and db = sample_table and s = sample_server and start = None
      and end' = "Some ''2024-06-30''"]
  note r1 = t1 [THEN conjunct2, THEN conjunct2, THEN mp, OF h(3)]
  note r2 = t2 [THEN conjunct2, THEN conjunct2, THEN mp, OF h(3)]
  note r3 = t3 [THEN conjunct2, THEN conjunct2, THEN mp, OF h(3)]
  note m1 = t1 [THEN conjunct1, THEN mp, OF h(1)]
  note m2 = t2 [THEN conjunct1, THEN mp, OF h(2)]
  note m3 = t3 [THEN conjunct2, THEN conjunct1, THEN mp, OF h(4)]
  have "falsy None" by (simp add: falsy_def)
  with h(1,3) m1 [THEN conjunct1] m1 [THEN conjunct2, THEN conjunct1] m3
    m2 [THEN conjunct2, THEN conjunct2, THEN conjunct1, THEN mp, OF e1]
    m2 [THEN conjunct2, THEN conjunct2, THEN conjunct2, THEN mp, OF e2]
  show ?thesis
    unfolding r1 r2 r3 by (intro conjI) (elim conjE, assumption)+
qed

section \<open>Creating an event\<close>

text \<open>
  Claim C2, as the code has it. A create request whose date, time or title is missing or
  empty is answered with status 400 and the table is left as it was. Otherwise one row is
  appended to the table, with an id the store assigns above every id in the table and with
  the submitted date, time and title; the answer is status 201 with that full row. A
  channel, platform or notes field that is absent or empty is stored as null by the
  Supabase version and as the empty string by the SQLite version. The Supabase route is
  taken after \<^verbatim>\<open>requireAuth\<close> has let the request through.
\<close>

theorem create_event:
  "(falsy (b_date b) \<or> falsy (b_time b) \<or> falsy (b_title b) \<longrightarrow>
      post_events_sqlite b now db = (reply 400 (error_json msg_campos), db)
    \<and> (session s \<noteq> None \<longrightarrow>
         post_events_route b now s = (reply 400 (error_json msg_campos), s)))
   \<and> (b_date b = Some d \<and> d \<noteq> [] \<and> b_time b = Some t \<and> t \<noteq> []
        \<and> b_title b = Some ti \<and> ti \<noteq> [] \<longrightarrow>
      (let r = \<lparr>event_id = next_id db, date = d, time = t, title = ti,
                 channel = (if falsy (b_channel b) then Some [] else b_channel b),
                 platform = (if falsy (b_platform b) then Some [] else b_platform b),
                 event_notes = (if falsy (b_notes b) then Some [] else b_notes b),
                 created_at = now, created_by = None\<rparr>
       in post_events_sqlite b now db
            = (reply 201 (event_json_sqlite r), \<lparr>rows = rows db @ [r], last_id = event_id r\<rparr>)
          \<and> (\<forall>x \<in> set (rows db). event_id x < event_id r))
    \<and> (\<forall>u. session s = Some u \<longrightarrow>
         (let r = \<lparr>event_id = next_id (marketing_events s), date = d, time = t, title = ti,
                    channel = (if falsy (b_channel b) then None else b_channel b),
                    platform = (if falsy (b_platform b) then None else b_platform b),
                    event_notes = (if falsy (b_notes b) then None else b_notes b),
                    created_at = now, created_by = Some (user_id u)\<rparr>
          in post_events_route b now s
               = (reply 201 (event_json r),
                  s\<lparr>marketing_events :=
                      \<lparr>rows = rows (marketing_events s) @ [r], last_id = event_id r\<rparr>\<rparr>)
             \<and> (\<forall>x \<in> set (rows (marketing_events s)). event_id x < event_id r))))"
proof (intro conjI impI allI)
  assume "falsy (b_date b) \<or> falsy (b_time b) \<or> falsy (b_title b)"
  then show "post_events_sqlite b now db = (reply 400 (error_json msg_campos), db)"
    by (simp add: post_events_sqlite_def)
next
  assume "falsy (b_date b) \<or> falsy (b_time b) \<or> falsy (b_title b)" "session s \<noteq> None"
  then show "post_events_route b now s = (reply 400 (error_json msg_campos), s)"
    by (auto simp: post_events_route_def post_events_def guarded_requireAuth)
next
  assume h: "b_date b = Some d \<and> d \<noteq> [] \<and> b_time b = Some t \<and> t \<noteq> []
        \<and> b_title b = Some ti \<and> ti \<noteq> []"
  then have t: "\<not> falsy (b_date b)" "\<not> falsy (b_time b)" "\<not> falsy (b_title b)"
    by (simp_all add: falsy_def)
  show "let r = \<lparr>event_id = next_id db, date = d, time = t, title = ti,
                 channel = (if falsy (b_channel b) then Some [] else b_channel b),
                 platform = (if falsy (b_platform b) then Some [] else b_platform b),
                 event_notes = (if falsy (b_notes b) then Some [] else b_notes b),
                 created_at = now, created_by = None\<rparr>
       in post_events_sqlite b now db
            = (reply 201 (event_json_sqlite r), \<lparr>rows = rows db @ [r], last_id = event_id r\<rparr>)
          \<and> (\<forall>x \<in> set (rows db). event_id x < event_id r)"
    using h by (simp add: post_events_sqlite_ok [OF t] Let_def or_empty_def next_id_fresh)
  fix u
  assume u: "session s = Some u"
  show "let r = \<lparr>event_id = next_id (marketing_events s), date = d, time = t, title = ti,
                    channel = (if falsy (b_channel b) then None else b_channel b),
                    platform = (if falsy (b_platform b) then None else b_platform b),
                    event_notes = (if falsy (b_notes b) then None else b_notes b),
                    created_at = now, created_by = Some (user_id u)\<rparr>
          in post_events_route b now s
               = (reply 201 (event_json r),
                  s\<lparr>marketing_events :=
                      \<lparr>rows = rows (marketing_events s) @ [r], last_id = event_id r\<rparr>\<rparr>)
             \<and> (\<forall>x \<in> set (rows (marketing_events s)). event_id x < event_id r)"
    using h u
    by (simp add: post_events_route_def guarded_requireAuth [OF u] post_events_ok [OF t u]
          Let_def or_null_def next_id_fresh)
qed

text \<open>
  As it is written, the claim has every absent optional field stored as null. The SQLite
  version stores the empty string: on an empty table, the create request of the spec's
  example is answered with \<^verbatim>\<open>channel\<close>, \<^verbatim>\<open>platform\<close> and \<^verbatim>\<open>notes\<close> equal to
  \<^verbatim>\<open>""\<close>, and so they are stored.
\<close>

theorem create_event_sqlite_counterexample:
  "b_channel launch_post = None \<and> b_platform launch_post = None \<and> b_notes launch_post = None
   \<and> fst (post_events_sqlite launch_post ''2024-05-22 12:00:00'' empty_table)
       = reply 201
           (JObj [(''id'', JNum 1), (''date'', JStr ''2024-06-01''), (''time'', JStr ''09:00''),
                  (''title'', JStr ''Launch post''), (''channel'', JStr []),
                  (''platform'', JStr []), (''notes'', JStr []),
                  (''created_at'', JStr ''2024-05-22 12:00:00'')])
   \<and> rows (snd (post_events_sqlite launch_post ''2024-05-22 12:00:00'' empty_table))
       = [\<lparr>event_id = 1, date = ''2024-06-01'', time = ''09:00'', title = ''Launch post'',
            channel = Some [], platform = Some [], event_notes = Some [],
            created_at = ''2024-05-22 12:00:00'', created_by = None\<rparr>]
   \<and> Some [] \<noteq> (None :: string option)"
  by (simp add: post_events_sqlite_def launch_post_def empty_table_def falsy_def or_empty_def
      insert_row_def next_id_def event_json_sqlite_def Let_def)

text \<open>
  A request without a title, and the request of the spec's example, on the sample table.
\<close>

theorem create_event_witness:
  "falsy (b_title untitled) \<and> session sample_server \<noteq> None
   \<and> post_events_sqlite untitled ''2024-05-22 12:00:00'' sample_table
       = (reply 400 (error_json msg_campos), sample_table)
   \<and> post_events_route untitled ''2024-05-22 12:00:00'' sample_server
       = (reply 400 (error_json msg_campos), sample_server)
   \<and> b_date launch_post = Some ''2024-06-01'' \<and> ''2024-06-01'' \<noteq> []
   \<and> b_time launch_post = Some ''09:00'' \<and> ''09:00'' \<noteq> []
   \<and> b_title launch_post = Some ''Launch post'' \<and> ''Launch post'' \<noteq> []
   \<and> post_events_sqlite launch_post ''2024-05-22 12:00:00'' sample_table
       = (reply 201
            (event_json_sqlite
               \<lparr>event_id = 4, date = ''2024-06-01'', time = ''09:00'', title = ''Launch post'',
                channel = Some [], platform = Some [], event_notes = Some [],
                created_at = ''2024-05-22 12:00:00'', created_by = None\<rparr>),
          \<lparr>rows = rows sample_table
                    @ [\<lparr>event_id = 4, date = ''2024-06-01'', time = ''09:00'',
                        title = ''Launch post'', channel = Some [], platform = Some [],
                        event_notes = Some [], created_at = ''2024-05-22 12:00:00'',
                        created_by = None\<rparr>],
           last_id = 4\<rparr>)
   \<and> post_events_route launch_post ''2024-05-22 12:00:00'' sample_server
       = (reply 201
            (event_json
               \<lparr>event_id = 4, date = ''2024-06-01'', time = ''09:00'', title = ''Launch post'',
                channel = None, platform = None, event_notes = None,
                created_at = ''2024-05-22 12:00:00'', created_by = Some 1\<rparr>),
          sample_server\<lparr>marketing_events :=
            \<lparr>rows = rows sample_table
                      @ [\<lparr>event_id = 4, date = ''2024-06-01'', time = ''09:00'',
                          title = ''Launch post'', channel = None, platform = None,
                          event_notes = None, created_at = ''2024-05-22 12:00:00'',
                          created_by = Some 1\<rparr>],
             last_id = 4\<rparr>\<rparr>)"
proof -
  have h1: "falsy (b_title untitled)" "session sample_server \<noteq> None"
    by (simp_all add: untitled_def falsy_def sample_server_def)
  have h2: "b_date launch_post = Some ''2024-06-01'' \<and> ''2024-06-01'' \<noteq> []
      \<and> b_time launch_post = Some ''09:00'' \<and> ''09:00'' \<noteq> []
      \<and> b_title launch_post = Some ''Launch post'' \<and> ''Launch post'' \<noteq> []"
    by (simp add: launch_post_def)
  have n: "next_id sample_table = 4" "marketing_events sample_server = sample_table"
    by (simp_all add: next_id_def sample_defs)
  have f: "falsy (b_channel launch_post)" "falsy (b_platform launch_post)"
      "falsy (b_notes launch_post)"
    by (simp_all add: launch_post_def falsy_def)
  have u: "session sample_server
             = Some \<lparr>user_id = 1, email = ''ana@wfg.test'', role = ''admin''\<rparr>"
    by (simp add: sample_server_def)
  note t1 = create_event [where b = untitled and now = "''2024-05-22 12:00:00''"
      and db = sample_table and s = sample_server]
  note t2 = create_event [where b = launch_post and now = "''2024-05-22 12:00:00''"
      and db = sample_table and s = sample_server and d = "''2024-06-01''"
      and t = "''09:00''" and ti = "''Launch post''"]
  from t1 h1 have a: "post_events_sqlite untitled ''2024-05-22 12:00:00'' sample_table
       = (reply 400 (error_json msg_campos), sample_table)
   \<and> post_events_route untitled ''2024-05-22 12:00:00'' sample_server
       = (reply 400 (error_json msg_campos), sample_server)"
    by blast
  from t2 [THEN conjunct2, THEN mp, OF h2] u
  have b: "post_events_sqlite launch_post ''2024-05-22 12:00:00'' sample_table
       = (reply 201
            (event_json_sqlite
               \<lparr>event_id = 4, date = ''2024-06-01'', time = ''09:00'', title = ''Launch post'',
                channel = Some [], platform = Some [], event_notes = Some [],
                created_at = ''2024-05-22 12:00:00'', created_by = None\<rparr>),
          \<lparr>rows = rows sample_table
                    @ [\<lparr>event_id = 4, date = ''2024-06-01'', time = ''09:00'',
                        title = ''Launch post'', channel = Some [], platform = Some [],
                        event_notes = Some [], created_at = ''2024-05-22 12:00:00'',
                        created_by = None\<rparr>],
           last_id = 4\<rparr>)
   \<and> post_events_route launch_post ''2024-05-22 12:00:00'' sample_server
       = (reply 201
            (event_json
               \<lparr>event_id = 4, date = ''2024-06-01'', time = ''09:00'', title = ''Launch post'',
                channel = None, platform = None, event_notes = None,
                created_at = ''2024-05-22 12:00:00'', created_by = Some 1\<rparr>),
          sample_server\<lparr>marketing_events :=
            \<lparr>rows = rows sample_table
                      @ [\<lparr>event_id = 4, date = ''2024-06-01'', time = ''09:00'',
                          title = ''Launch post'', channel = None, platform = None,
                          event_notes = None, created_at = ''2024-05-22 12:00:00'',
                          created_by = Some 1\<rparr>],
             last_id = 4\<rparr>\<rparr>)"
    by (simp add: Let_def n f)
  from h1 h2 a b show ?thesis by simp
qed

section \<open>Updating an event\<close>

text \<open>
  Claim C3, as the code has it. Take an update request whose date, time and title are
  present and not empty. If no stored event has the given id, the answer is status 404
  and the table is left as it was. If a stored event has the id (ids being unique), its
  date, time and title are replaced by the submitted values, and its channel, platform
  and notes each by the submitted value when that is not empty and otherwise by null
  (Supabase version) or by the empty string (SQLite version); id, creation time and
  creator stay, every other row stays, and the answer is status 200 with the full updated
  row. This holds for both update handlers; the Supabase route runs its handler once
  \<^verbatim>\<open>requireAuth\<close> has let the request through.
\<close>

theorem update_event:
  "(b_date b = Some d \<and> d \<noteq> [] \<and> b_time b = Some t \<and> t \<noteq> []
     \<and> b_title b = Some ti \<and> ti \<noteq> [] \<longrightarrow>
     ((\<forall>r \<in> set (rows db). event_id r \<noteq> i) \<longrightarrow>
        put_events_sqlite i b db = (reply 404 (error_json msg_no_encontrado), db))
   \<and> ((\<forall>r \<in> set (rows (marketing_events s)). event_id r \<noteq> i) \<longrightarrow>
        put_events i b s = (reply 404 (error_json msg_no_encontrado), s))
   \<and> (\<forall>r. r \<in> set (rows db) \<and> event_id r = i \<and> distinct (map event_id (rows db)) \<longrightarrow>
        (let r' = r\<lparr>date := d, time := t, title := ti,
                     channel := (if falsy (b_channel b) then Some [] else b_channel b),
                     platform := (if falsy (b_platform b) then Some [] else b_platform b),
                     event_notes := (if falsy (b_notes b) then Some [] else b_notes b)\<rparr>
         in put_events_sqlite i b db
              = (reply 200 (event_json_sqlite r'),
                 db\<lparr>rows := map (\<lambda>x. if event_id x = i then r' else x) (rows db)\<rparr>)))
   \<and> (\<forall>r. r \<in> set (rows (marketing_events s)) \<and> event_id r = i
           \<and> distinct (map event_id (rows (marketing_events s))) \<longrightarrow>
        (let r' = r\<lparr>date := d, time := t, title := ti,
                     channel := (if falsy (b_channel b) then None else b_channel b),
                     platform := (if falsy (b_platform b) then None else b_platform b),
                     event_notes := (if falsy (b_notes b) then None else b_notes b)\<rparr>
         in put_events i b s
              = (reply 200 (event_json r'),
                 s\<lparr>marketing_events := (marketing_events s)
                    \<lparr>rows := map (\<lambda>x. if event_id x = i then r' else x)
                               (rows (marketing_events s))\<rparr>\<rparr>))))
   \<and> (session s \<noteq> None \<longrightarrow> put_events_route i b s = put_events i b s)"
proof (intro conjI impI allI)
  assume "session s \<noteq> None"
  then show "put_events_route i b s = put_events i b s"
    by (auto simp: put_events_route_def guarded_requireAuth)
next
  assume h: "b_date b = Some d \<and> d \<noteq> [] \<and> b_time b = Some t \<and> t \<noteq> []
     \<and> b_title b = Some ti \<and> ti \<noteq> []"
  then have t: "\<not> falsy (b_date b)" "\<not> falsy (b_time b)" "\<not> falsy (b_title b)"
    by (simp_all add: falsy_def)
  {
    assume "\<forall>r \<in> set (rows db). event_id r \<noteq> i"
    then show "put_events_sqlite i b db = (reply 404 (error_json msg_no_encontrado), db)"
      by (rule put_events_sqlite_missing [OF t])
  next
    assume "\<forall>r \<in> set (rows (marketing_events s)). event_id r \<noteq> i"
    then show "put_events i b s = (reply 404 (error_json msg_no_encontrado), s)"
      by (rule put_events_missing [OF t])
  next
    fix r
    assume "r \<in> set (rows db) \<and> event_id r = i \<and> distinct (map event_id (rows db))"
    then show "let r' = r\<lparr>date := d, time := t, title := ti,
                     channel := (if falsy (b_channel b) then Some [] else b_channel b),
                     platform := (if falsy (b_platform b) then Some [] else b_platform b),
                     event_notes := (if falsy (b_notes b) then Some [] else b_notes b)\<rparr>
         in put_events_sqlite i b db
              = (reply 200 (event_json_sqlite r'),
                 db\<lparr>rows := map (\<lambda>x. if event_id x = i then r' else x) (rows db)\<rparr>)"
      using h put_events_sqlite_found [OF t, of db r]
      by (auto simp: Let_def set_columns_def or_empty_def)
  next
    fix r
    assume "r \<in> set (rows (marketing_events s)) \<and> event_id r = i
           \<and> distinct (map event_id (rows (marketing_events s)))"
    then show "let r' = r\<lparr>date := d, time := t, title := ti,
                     channel := (if falsy (b_channel b) then None else b_channel b),
                     platform := (if falsy (b_platform b) then None else b_platform b),
                     event_notes := (if falsy (b_notes b) then None else b_notes b)\<rparr>
         in put_events i b s
              = (reply 200 (event_json r'),
                 s\<lparr>marketing_events := (marketing_events s)
                    \<lparr>rows := map (\<lambda>x. if event_id x = i then r' else x)
                               (rows (marketing_events s))\<rparr>\<rparr>)"
      using h put_events_found [OF t, of s r]
      by (auto simp: Let_def set_columns_def or_null_def)
  }
qed

text \<open>
  As it is written, the claim has the stored fields replaced by the submitted values. In
  the Supabase version an update that submits the empty string as channel stores null: the
  row and the response have \<^verbatim>\<open>channel\<close> null, not \<^verbatim>\<open>""\<close>.
\<close>

theorem update_event_counterexample:
  "b_channel blank_channel = Some []
   \<and> fst (put_events_route 1 blank_channel sample_server)
       = reply 200
           (JObj [(''id'', JNum 1), (''date'', JStr ''2024-06-02''), (''time'', JStr ''18:30''),
                  (''title'', JStr ''Sorteo''), (''channel'', JNull),
                  (''platform'', JStr ''Instagram''), (''notes'', JStr ''con foto''),
                  (''created_at'', JStr ''2024-05-20 10:00:00''), (''created_by'', JNum 1)])
   \<and> rows (marketing_events (snd (put_events_route 1 blank_channel sample_server)))
       = [\<lparr>event_id = 1, date = ''2024-06-02'', time = ''18:30'', title = ''Sorteo'',
            channel = None, platform = Some ''Instagram'', event_notes = Some ''con foto'',
            created_at = ''2024-05-20 10:00:00'', created_by = Some 1\<rparr>,
          reel, tiktok]
   \<and> None \<noteq> b_channel blank_channel"
  by (simp add: put_events_route_def guarded_def requireAuth_def put_events_def q_update_def
      matches_eq_id set_columns_def or_null_def falsy_def Let_def sample_defs event_json_def)

text \<open>
  An update of event 1, which is stored, and of event 9, which is not.
\<close>

theorem update_event_witness:
  "b_date blank_channel = Some ''2024-06-02'' \<and> ''2024-06-02'' \<noteq> []
   \<and> b_time blank_channel = Some ''18:30'' \<and> ''18:30'' \<noteq> []
   \<and> b_title blank_channel = Some ''Sorteo'' \<and> ''Sorteo'' \<noteq> []
   \<and> session sample_server \<noteq> None
   \<and> historia \<in> set (rows sample_table) \<and> event_id historia = 1
   \<and> distinct (map event_id (rows sample_table))
   \<and> put_events_sqlite 9 blank_channel sample_table
       = (reply 404 (error_json msg_no_encontrado), sample_table)
   \<and> put_events_route 9 blank_channel sample_server
       = (reply 404 (error_json msg_no_encontrado), sample_server)
   \<and> put_events_sqlite 1 blank_channel sample_table
       = (reply 200
            (event_json_sqlite
               (historia\<lparr>date := ''2024-06-02'', time := ''18:30'', title := ''Sorteo'',
                   channel := Some [], platform := Some ''Instagram'',
                   event_notes := Some ''con foto''\<rparr>)),
          sample_table\<lparr>rows :=
            [historia\<lparr>date := ''2024-06-02'', time := ''18:30'', title := ''Sorteo'',
                channel := Some [], platform := Some ''Instagram'',
                event_notes := Some ''con foto''\<rparr>,
             reel, tiktok]\<rparr>)
   \<and> put_events_route 1 blank_channel sample_server
       = (reply 200
            (event_json
               (historia\<lparr>date := ''2024-06-02'', time := ''18:30'', title := ''Sorteo'',
                   channel := None, platform := Some ''Instagram'',
                   event_notes := Some ''con foto''\<rparr>)),
          sample_server\<lparr>marketing_events := sample_table\<lparr>rows :=
            [historia\<lparr>date := ''2024-06-02'', time := ''18:30'', title := ''Sorteo'',
                channel := None, platform := Some ''Instagram'',
                event_notes := Some ''con foto''\<rparr>,
             reel, tiktok]\<rparr>\<rparr>)"
proof -
  have h: "b_date blank_channel = Some ''2024-06-02'' \<and> ''2024-06-02'' \<noteq> []
      \<and> b_time blank_channel = Some ''18:30'' \<and> ''18:30'' \<noteq> []
      \<and> b_title blank_channel = Some ''Sorteo'' \<and> ''Sorteo'' \<noteq> []"
    by (simp add: blank_channel_def)
  have s: "session sample_server \<noteq> None" "marketing_events sample_server = sample_table"
    by (simp_all add: sample_server_def)
  have r: "historia \<in> set (rows sample_table)" "event_id historia = 1"
      "distinct (map event_id (rows sample_table))"
    by (simp_all add: sample_defs)
  have e: "\<forall>r \<in> set (rows sample_table). event_id r \<noteq> 9"
    by (simp add: sample_defs)
  have f: "b_channel blank_channel = Some []" "b_platform blank_channel = Some ''Instagram''"
      "b_notes blank_channel = Some ''con foto''"
    by (simp_all add: blank_channel_def)
  have m: "map (\<lambda>x. if event_id x = Suc 0 then v else x) (rows sample_table)
             = [v, reel, tiktok]"
    for v
    by (simp add: sample_defs)
  note t9 = update_event [where b = blank_channel and d = "''2024-06-02''" and t = "''18:30''"
      and ti = "''Sorteo''" and db = sample_table and s = sample_server and i = 9,
      THEN conjunct1, THEN mp, OF h]
  note t1 = update_event [where b = blank_channel and d = "''2024-06-02''" and t = "''18:30''"
      and ti = "''Sorteo''" and db = sample_table and s = sample_server and i = 1,
      THEN conjunct1, THEN mp, OF h]
  note g9 = update_event [where b = blank_channel and s = sample_server and i = 9,
      THEN conjunct2, THEN mp, OF s(1)]
  note g1 = update_event [where b = blank_channel and s = sample_server and i = 1,
      THEN conjunct2, THEN mp, OF s(1)]
  from t9 e s have a: "put_events_sqlite 9 blank_channel sample_table
       = (reply 404 (error_json msg_no_encontrado), sample_table)
   \<and> put_events_route 9 blank_channel sample_server
       = (reply 404 (error_json msg_no_encontrado), sample_server)"
    unfolding g9 by simp
  from t1 [THEN conjunct2, THEN conjunct2, THEN conjunct1, THEN spec, of historia] r
  have b: "put_events_sqlite 1 blank_channel sample_table
       = (reply 200
            (event_json_sqlite
               (historia\<lparr>date := ''2024-06-02'', time := ''18:30'', title := ''Sorteo'',
                   channel := Some [], platform := Some ''Instagram'',
                   event_notes := Some ''con foto''\<rparr>)),
          sample_table\<lparr>rows :=
            [historia\<lparr>date := ''2024-06-02'', time := ''18:30'', title := ''Sorteo'',
                channel := Some [], platform := Some ''Instagram'',
                event_notes := Some ''con foto''\<rparr>,
             reel, tiktok]\<rparr>)"
    by (simp add: Let_def f m falsy_def)
  from t1 [THEN conjunct2, THEN conjunct2, THEN conjunct2, THEN spec, of historia] r s
  have c: "put_events_route 1 blank_channel sample_server
       = (reply 200
            (event_json
               (historia\<lparr>date := ''2024-06-02'', time := ''18:30'', title := ''Sorteo'',
                   channel := None, platform := Some ''Instagram'',
                   event_notes := Some ''con foto''\<rparr>)),
          sample_server\<lparr>marketing_events := sample_table\<lparr>rows :=
            [historia\<lparr>date := ''2024-06-02'', time := ''18:30'', title := ''Sorteo'',
                channel := None, platform := Some ''Instagram'',
                event_notes := Some ''con foto''\<rparr>,
             reel, tiktok]\<rparr>\<rparr>)"
    unfolding g1 by (simp add: Let_def f m falsy_def)
  from h s(1) r a b c show ?thesis by simp
qed

section \<open>Deleting an event\<close>

text \<open>
  Claim C4. If no stored event has the given id, a delete request is answered with status
  404 and the table is left as it was. Otherwise the answer is status 200 with a body that
  holds the success flag and nothing else, the rows with that id are gone and every other
  row stays in place; a list over any range that follows holds no event with that id.
  This holds for both delete handlers; the Supabase route runs its handler once
  \<^verbatim>\<open>requireAdmin\<close> has let the request through.
\<close>

theorem delete_event:
  "((\<forall>r \<in> set (rows db). event_id r \<noteq> i) \<longrightarrow>
      delete_events_sqlite i db = (reply 404 (error_json msg_no_encontrado), db))
   \<and> ((\<exists>r \<in> set (rows db). event_id r = i) \<longrightarrow>
      delete_events_sqlite i db
        = (reply 200 success_json, db\<lparr>rows := filter (\<lambda>r. event_id r \<noteq> i) (rows db)\<rparr>)
      \<and> (a \<noteq> [] \<and> c \<noteq> [] \<longrightarrow>
           (\<exists>evs. get_events_sqlite (Some a) (Some c) (snd (delete_events_sqlite i db))
                     = (reply 200 (JArr (map event_json_sqlite evs)),
                        snd (delete_events_sqlite i db))
              \<and> i \<notin> event_id ` set evs)))
   \<and> ((\<forall>r \<in> set (rows (marketing_events s)). event_id r \<noteq> i) \<longrightarrow>
        delete_events i s = (reply 404 (error_json msg_no_encontrado), s))
   \<and> ((\<exists>r \<in> set (rows (marketing_events s)). event_id r = i) \<longrightarrow>
        delete_events i s
          = (reply 200 success_json,
             s\<lparr>marketing_events := (marketing_events s)
                \<lparr>rows := filter (\<lambda>r. event_id r \<noteq> i) (rows (marketing_events s))\<rparr>\<rparr>)
      \<and> (a \<noteq> [] \<and> c \<noteq> [] \<longrightarrow>
           (\<exists>evs. get_events (Some a) (Some c) (snd (delete_events i s))
                     = (reply 200 (JArr (map event_json evs)), snd (delete_events i s))
              \<and> i \<notin> event_id ` set evs)))
   \<and> (\<forall>u. session s = Some u \<and> role u = ''admin'' \<longrightarrow>
        delete_events_route i s = delete_events i s)"
proof (intro conjI impI allI)
  assume "\<forall>r \<in> set (rows db). event_id r \<noteq> i"
  then show "delete_events_sqlite i db = (reply 404 (error_json msg_no_encontrado), db)"
    by (simp add: delete_events_sqlite_conv)
next
  assume "\<exists>r \<in> set (rows db). event_id r = i"
  then show "delete_events_sqlite i db
        = (reply 200 success_json, db\<lparr>rows := filter (\<lambda>r. event_id r \<noteq> i) (rows db)\<rparr>)"
    by (auto simp: delete_events_sqlite_conv)
next
  assume "a \<noteq> [] \<and> c \<noteq> []"
  then show "\<exists>evs. get_events_sqlite (Some a) (Some c) (snd (delete_events_sqlite i db))
                     = (reply 200 (JArr (map event_json_sqlite evs)),
                        snd (delete_events_sqlite i db))
              \<and> i \<notin> event_id ` set evs"
    by (intro exI [of _ "sort_key (\<lambda>r. (date r, time r))
          (filter (\<lambda>r. a \<le> date r \<and> date r \<le> c) (rows (snd (delete_events_sqlite i db))))"])
       (auto simp: get_events_sqlite_ok rows_after_delete_sqlite)
next
  assume "\<forall>r \<in> set (rows (marketing_events s)). event_id r \<noteq> i"
  then show "delete_events i s = (reply 404 (error_json msg_no_encontrado), s)"
    by (simp add: delete_events_conv)
next
  assume "\<exists>r \<in> set (rows (marketing_events s)). event_id r = i"
  then show "delete_events i s
          = (reply 200 success_json,
             s\<lparr>marketing_events := (marketing_events s)
                \<lparr>rows := filter (\<lambda>r. event_id r \<noteq> i) (rows (marketing_events s))\<rparr>\<rparr>)"
    by (auto simp: delete_events_conv)
next
  assume "a \<noteq> [] \<and> c \<noteq> []"
  then show "\<exists>evs. get_events (Some a) (Some c) (snd (delete_events i s))
                     = (reply 200 (JArr (map event_json evs)), snd (delete_events i s))
              \<and> i \<notin> event_id ` set evs"
    by (intro exI [of _ "sort_key (\<lambda>r. (date r, time r))
          (filter (\<lambda>r. a \<le> date r \<and> date r \<le> c)
             (rows (marketing_events (snd (delete_events i s)))))"])
       (auto simp: get_events_ok rows_after_delete)
next
  fix u
  assume "session s = Some u \<and> role u = ''admin''"
  then show "delete_events_route i s = delete_events i s"
    by (simp add: delete_events_route_def guarded_requireAdmin)
qed

text \<open>
  Deleting event 2, which is stored, and event 9, which is not, as an admin.
\<close>

theorem delete_event_witness:
  "reel \<in> set (rows sample_table) \<and> event_id reel = 2
   \<and> session sample_server = Some \<lparr>user_id = 1, email = ''ana@wfg.test'', role = ''admin''\<rparr>
   \<and> ''2024-01-01'' \<noteq> [] \<and> ''2024-12-31'' \<noteq> []
   \<and> delete_events_sqlite 9 sample_table
       = (reply 404 (error_json msg_no_encontrado), sample_table)
   \<and> delete_events_route 9 sample_server
       = (reply 404 (error_json msg_no_encontrado), sample_server)
   \<and> delete_events_sqlite 2 sample_table
       = (reply 200 success_json, sample_table\<lparr>rows := [historia, tiktok]\<rparr>)
   \<and> delete_events_route 2 sample_server
       = (reply 200 success_json,
          sample_server\<lparr>marketing_events := sample_table\<lparr>rows := [historia, tiktok]\<rparr>\<rparr>)
   \<and> (\<exists>evs. get_events_sqlite (Some ''2024-01-01'') (Some ''2024-12-31'')
                (snd (delete_events_sqlite 2 sample_table))
              = (reply 200 (JArr (map event_json_sqlite evs)),
                 snd (delete_events_sqlite 2 sample_table))
         \<and> 2 \<notin> event_id ` set evs)
   \<and> (\<exists>evs. get_events (Some ''2024-01-01'') (Some ''2024-12-31'')
                (snd (delete_events_route 2 sample_server))
              = (reply 200 (JArr (map event_json evs)), snd (delete_events_route 2 sample_server))
         \<and> 2 \<notin> event_id ` set evs)"
proof -
  have r: "reel \<in> set (rows sample_table)" "event_id reel = 2"
    by (simp_all add: sample_defs)
  have u: "session sample_server
             = Some \<lparr>user_id = 1, email = ''ana@wfg.test'', role = ''admin''\<rparr>
           \<and> role \<lparr>user_id = 1, email = ''ana@wfg.test'', role = ''admin''\<rparr> = ''admin''"
    by (simp add: sample_server_def)
  have m: "marketing_events sample_server = sample_table"
    by (simp add: sample_server_def)
  have ne: "''2024-01-01'' \<noteq> [] \<and> ''2024-12-31'' \<noteq> []" by simp
  have e9: "\<forall>r \<in> set (rows sample_table). event_id r \<noteq> 9"
    by (simp add: sample_defs)
  have e2: "\<exists>r \<in> set (rows sample_table). event_id r = 2"
    using r by blast
  have f: "filter (\<lambda>r. event_id r \<noteq> 2) (rows sample_table) = [historia, tiktok]"
    by (simp add: sample_defs)
  note t9 = delete_event [where i = 9 and db = sample_table and s = sample_server
      and a = "''2024-01-01''" and c = "''2024-12-31''"]
  note t2 = delete_event [where i = 2 and db = sample_table and s = sample_server
      and a = "''2024-01-01''" and c = "''2024-12-31''"]
  from t9 u have g9: "delete_events_route 9 sample_server = delete_events 9 sample_server"
    by blast
  from t2 u have g2: "delete_events_route 2 sample_server = delete_events 2 sample_server"
    by blast
  from t9 e9 have a: "delete_events_sqlite 9 sample_table
       = (reply 404 (error_json msg_no_encontrado), sample_table)
   \<and> delete_events 9 sample_server
       = (reply 404 (error_json msg_no_encontrado), sample_server)"
    unfolding m by blast
  from t2 e2 ne show ?thesis
    unfolding m f g9 g2 using r u a by blast
qed

section \<open>Login\<close>

text \<open>
  Claim C5. Take a login request whose email and password are both present and not
  empty, over a table of users with unique emails. The answer has status 401 exactly when
  no user has that email, or the user with that email is inactive or has a stored
  password different from the submitted one (compared as plain strings). In the remaining
  case the answer is status 200 with the object made of the stored user's id, email and
  role, and the session holds exactly that object, so that the role in the session is the
  stored role.
\<close>

theorem login_unauthorized_iff:
  "e \<noteq> [] \<and> p \<noteq> [] \<and> distinct (map email (marketing_users s)) \<longrightarrow>
     (status (fst (login (Some e) (Some p) s)) = 401
        \<longleftrightarrow> (\<forall>u \<in> set (marketing_users s). email u \<noteq> e)
            \<or> (\<exists>u \<in> set (marketing_users s).
                  email u = e \<and> (\<not> active u \<or> password u \<noteq> p)))
   \<and> (\<forall>u \<in> set (marketing_users s). email u = e \<and> active u \<and> password u = p \<longrightarrow>
        login (Some e) (Some p) s
          = (reply 200 (JObj [(''id'', JNum (user_id u)), (''email'', JStr (email u)),
                              (''role'', JStr (role u))]),
             s\<lparr>session := Some \<lparr>user_id = user_id u, email = email u, role = role u\<rparr>\<rparr>)
        \<and> map_option role (session (snd (login (Some e) (Some p) s))) = Some (role u))"
proof (intro impI)
  assume h: "e \<noteq> [] \<and> p \<noteq> [] \<and> distinct (map email (marketing_users s))"
  let ?us = "marketing_users s"
  from h filter_distinct_cases [of email ?us e]
  consider (absent) "filter (\<lambda>u. email u = e) ?us = []"
    | (found) r where "r \<in> set ?us" "email r = e" "filter (\<lambda>u. email u = e) ?us = [r]"
    by blast
  then show "(status (fst (login (Some e) (Some p) s)) = 401
        \<longleftrightarrow> (\<forall>u \<in> set ?us. email u \<noteq> e)
            \<or> (\<exists>u \<in> set ?us. email u = e \<and> (\<not> active u \<or> password u \<noteq> p)))
   \<and> (\<forall>u \<in> set ?us. email u = e \<and> active u \<and> password u = p \<longrightarrow>
        login (Some e) (Some p) s
          = (reply 200 (JObj [(''id'', JNum (user_id u)), (''email'', JStr (email u)),
                              (''role'', JStr (role u))]),
             s\<lparr>session := Some \<lparr>user_id = user_id u, email = email u, role = role u\<rparr>\<rparr>)
        \<and> map_option role (session (snd (login (Some e) (Some p) s))) = Some (role u))"
  proof cases
    case absent
    then have "\<forall>u \<in> set ?us. email u \<noteq> e" by (simp add: filter_empty_conv)
    with h absent show ?thesis by (auto simp: login_absent reply_def)
  next
    case found
    have same: "u = r" if "u \<in> set ?us" "email u = e" for u
      using h found(1,2) that by (auto intro: same_key_same_row [of email ?us])
    from h found show ?thesis
      by (auto simp: login_found reply_def dest: same)
  qed
qed

text \<open>
  The right password, a wrong password, an inactive user and an unknown email.
\<close>

theorem login_unauthorized_iff_witness:
  "''ana@wfg.test'' \<noteq> [] \<and> ''s3creto'' \<noteq> [] \<and> ''clave'' \<noteq> []
   \<and> distinct (map email (marketing_users anonymous))
   \<and> ana \<in> set (marketing_users anonymous) \<and> email ana = ''ana@wfg.test''
   \<and> active ana \<and> password ana = ''s3creto''
   \<and> login (Some ''ana@wfg.test'') (Some ''s3creto'') anonymous
       = (reply 200 (JObj [(''id'', JNum 1), (''email'', JStr ''ana@wfg.test''),
                           (''role'', JStr ''admin'')]),
          anonymous\<lparr>session :=
            Some \<lparr>user_id = 1, email = ''ana@wfg.test'', role = ''admin''\<rparr>\<rparr>)
   \<and> status (fst (login (Some ''ana@wfg.test'') (Some ''s3creto'') anonymous)) \<noteq> 401
   \<and> status (fst (login (Some ''ana@wfg.test'') (Some ''clave'') anonymous)) = 401
   \<and> status (fst (login (Some ''carla@wfg.test'') (Some ''otra'') anonymous)) = 401
   \<and> status (fst (login (Some ''dora@wfg.test'') (Some ''clave'') anonymous)) = 401"
proof -
  have h: "''ana@wfg.test'' \<noteq> [] \<and> ''s3creto'' \<noteq> []
           \<and> distinct (map email (marketing_users anonymous))"
    and h2: "''ana@wfg.test'' \<noteq> [] \<and> ''clave'' \<noteq> []
           \<and> distinct (map email (marketing_users anonymous))"
    and h3: "''carla@wfg.test'' \<noteq> [] \<and> ''otra'' \<noteq> []
           \<and> distinct (map email (marketing_users anonymous))"
    and h4: "''dora@wfg.test'' \<noteq> [] \<and> ''clave'' \<noteq> []
           \<and> distinct (map email (marketing_users anonymous))"
    by (simp_all add: sample_defs)
  have a: "ana \<in> set (marketing_users anonymous)" "email ana = ''ana@wfg.test''"
      "active ana" "password ana = ''s3creto''" "user_id ana = 1" "role ana = ''admin''"
    by (simp_all add: sample_defs)
  have c: "carla \<in> set (marketing_users anonymous)" "email carla = ''carla@wfg.test''"
      "\<not> active carla"
    by (simp_all add: sample_defs)
  have d: "\<forall>u \<in> set (marketing_users anonymous). email u \<noteq> ''dora@wfg.test''"
    by (simp add: sample_defs)
  have w: "password ana \<noteq> ''clave''" by (simp add: sample_defs)
  have n: "\<not> ((\<forall>u \<in> set (marketing_users anonymous). email u \<noteq> ''ana@wfg.test'')
            \<or> (\<exists>u \<in> set (marketing_users anonymous).
                  email u = ''ana@wfg.test'' \<and> (\<not> active u \<or> password u \<noteq> ''s3creto'')))"
    by (simp add: sample_defs)
  note t1 = login_unauthorized_iff [where e = "''ana@wfg.test''" and p = "''s3creto''"
      and s = anonymous, THEN mp, OF h]
  note t2 = login_unauthorized_iff [where e = "''ana@wfg.test''" and p = "''clave''"
      and s = anonymous, THEN mp, OF h2, THEN conjunct1]
  note t3 = login_unauthorized_iff [where e = "''carla@wfg.test''" and p = "''otra''"
      and s = anonymous, THEN mp, OF h3, THEN conjunct1]
  note t4 = login_unauthorized_iff [where e = "''dora@wfg.test''" and p = "''clave''"
      and s = anonymous, THEN mp, OF h4, THEN conjunct1]
  from t1 [THEN conjunct2, THEN bspec, OF a(1)] a
  have r1: "login (Some ''ana@wfg.test'') (Some ''s3creto'') anonymous
       = (reply 200 (JObj [(''id'', JNum 1), (''email'', JStr ''ana@wfg.test''),
                           (''role'', JStr ''admin'')]),
          anonymous\<lparr>session :=
            Some \<lparr>user_id = 1, email = ''ana@wfg.test'', role = ''admin''\<rparr>\<rparr>)"
    by simp
  from t1 [THEN conjunct1] n
  have r0: "status (fst (login (Some ''ana@wfg.test'') (Some ''s3creto'') anonymous)) \<noteq> 401"
    by blast
  from t2 a w
  have r2: "status (fst (login (Some ''ana@wfg.test'') (Some ''clave'') anonymous)) = 401"
    by blast
  from t3 c
  have r3: "status (fst (login (Some ''carla@wfg.test'') (Some ''otra'') anonymous)) = 401"
    by blast
  from t4 d
  have r4: "status (fst (login (Some ''dora@wfg.test'') (Some ''clave'') anonymous)) = 401"
    by blast
  from h h2 a r0 r1 r2 r3 r4 show ?thesis by simp
qed

section \<open>The admin guard\<close>

text \<open>
  Claim C6. A route behind \<^verbatim>\<open>requireAdmin\<close>, which in this code is the route
  \<^verbatim>\<open>DELETE /api/events/:id\<close> of the Supabase version, answers status 401 when the
  session has no user and status 403 when the session's user has a role other than
  \<^verbatim>\<open>admin\<close>. In both cases the handler behind the guard is not run: the answer is the
  guard's whatever the handler \<open>h\<close> is, and the state is left as it was, so nothing is
  deleted.
\<close>

theorem requireAdmin_rejects:
  "(session s = None \<longrightarrow>
      guarded requireAdmin h s = (reply 401 (error_json msg_no_autenticado), s)
    \<and> delete_events_route i s = (reply 401 (error_json msg_no_autenticado), s))
   \<and> (\<forall>u. session s = Some u \<and> role u \<noteq> ''admin'' \<longrightarrow>
        guarded requireAdmin h s = (reply 403 (error_json msg_no_autorizado), s)
      \<and> delete_events_route i s = (reply 403 (error_json msg_no_autorizado), s))"
  by (simp add: guarded_def requireAdmin_def delete_events_route_def)

text \<open>
  Without a session and with the session of a user who is no admin, event 2 stays in the
  table; the handler alone would have removed it.
\<close>

theorem requireAdmin_rejects_witness:
  "session anonymous = None
   \<and> session as_beto = Some \<lparr>user_id = 2, email = ''beto@wfg.test'', role = ''user''\<rparr>
   \<and> role \<lparr>user_id = 2, email = ''beto@wfg.test'', role = ''user''\<rparr> \<noteq> ''admin''
   \<and> guarded requireAdmin (delete_events 2) anonymous
       = (reply 401 (error_json msg_no_autenticado), anonymous)
   \<and> delete_events_route 2 anonymous = (reply 401 (error_json msg_no_autenticado), anonymous)
   \<and> guarded requireAdmin (delete_events 2) as_beto
       = (reply 403 (error_json msg_no_autorizado), as_beto)
   \<and> delete_events_route 2 as_beto = (reply 403 (error_json msg_no_autorizado), as_beto)
   \<and> rows (marketing_events (snd (delete_events_route 2 as_beto))) = [historia, reel, tiktok]
   \<and> rows (marketing_events (snd (delete_events 2 as_beto))) = [historia, tiktok]"
proof -
  have a: "session anonymous = None" by (simp add: anonymous_def)
  have b: "session as_beto = Some \<lparr>user_id = 2, email = ''beto@wfg.test'', role = ''user''\<rparr>
           \<and> role \<lparr>user_id = 2, email = ''beto@wfg.test'', role = ''user''\<rparr> \<noteq> ''admin''"
    by (simp add: as_beto_def)
  have r: "rows (marketing_events as_beto) = [historia, reel, tiktok]"
    "rows (marketing_events (snd (delete_events 2 as_beto))) = [historia, tiktok]"
    by (simp_all add: rows_after_delete) (simp_all add: sample_defs)
  note t1 = requireAdmin_rejects [where s = anonymous and h = "delete_events 2" and i = 2]
  note t2 = requireAdmin_rejects [where s = as_beto and h = "delete_events 2" and i = 2]
  from t1 a have c: "guarded requireAdmin (delete_events 2) anonymous
       = (reply 401 (error_json msg_no_autenticado), anonymous)
   \<and> delete_events_route 2 anonymous = (reply 401 (error_json msg_no_autenticado), anonymous)"
    by blast
  from t2 b have d: "guarded requireAdmin (delete_events 2) as_beto
       = (reply 403 (error_json msg_no_autorizado), as_beto)
   \<and> delete_events_route 2 as_beto = (reply 403 (error_json msg_no_autorizado), as_beto)"
    by blast
  from a b c d r show ?thesis by simp
qed

section \<open>Reading back what was created\<close>

text \<open>
  Claim C7, as the code has it. After a successful create, a list over a range that
  contains the event's date returns the new record, once, with the submitted date, time
  and title, and with each of channel, platform and notes equal to the submitted value
  when that value is not empty. A channel, platform or notes field submitted empty (or
  not submitted) comes back as null from the Supabase version and as the empty string
  from the SQLite version. The Supabase routes are taken after \<^verbatim>\<open>requireAuth\<close> has let
  the requests through.
\<close>

theorem create_then_list:
  "b_date b = Some d \<and> d \<noteq> [] \<and> b_time b = Some t \<and> t \<noteq> []
     \<and> b_title b = Some ti \<and> ti \<noteq> [] \<and> a \<noteq> [] \<and> c \<noteq> [] \<and> a \<le> d \<and> d \<le> c \<longrightarrow>
     (\<exists>r evs.
        post_events_sqlite b now db
          = (reply 201 (event_json_sqlite r), snd (post_events_sqlite b now db))
      \<and> get_events_sqlite (Some a) (Some c) (snd (post_events_sqlite b now db))
          = (reply 200 (JArr (map event_json_sqlite evs)), snd (post_events_sqlite b now db))
      \<and> filter (\<lambda>x. event_id x = event_id r) evs = [r]
      \<and> date r = d \<and> time r = t \<and> title r = ti
      \<and> channel r = (if falsy (b_channel b) then Some [] else b_channel b)
      \<and> platform r = (if falsy (b_platform b) then Some [] else b_platform b)
      \<and> event_notes r = (if falsy (b_notes b) then Some [] else b_notes b))
   \<and> (session s \<noteq> None \<longrightarrow>
       (\<exists>r evs.
          post_events_route b now s
            = (reply 201 (event_json r), snd (post_events_route b now s))
        \<and> get_events_route (Some a) (Some c) (snd (post_events_route b now s))
            = (reply 200 (JArr (map event_json evs)), snd (post_events_route b now s))
        \<and> filter (\<lambda>x. event_id x = event_id r) evs = [r]
        \<and> date r = d \<and> time r = t \<and> title r = ti
        \<and> channel r = (if falsy (b_channel b) then None else b_channel b)
        \<and> platform r = (if falsy (b_platform b) then None else b_platform b)
        \<and> event_notes r = (if falsy (b_notes b) then None else b_notes b)))"
proof (intro impI conjI)
  assume h: "b_date b = Some d \<and> d \<noteq> [] \<and> b_time b = Some t \<and> t \<noteq> []
     \<and> b_title b = Some ti \<and> ti \<noteq> [] \<and> a \<noteq> [] \<and> c \<noteq> [] \<and> a \<le> d \<and> d \<le> c"
  then have t: "\<not> falsy (b_date b)" "\<not> falsy (b_time b)" "\<not> falsy (b_title b)"
    by (simp_all add: falsy_def)
  let ?P = "\<lambda>r. a \<le> date r \<and> date r \<le> c"
  let ?k = "\<lambda>r. (date r, time r)"
  show "\<exists>r evs.
        post_events_sqlite b now db
          = (reply 201 (event_json_sqlite r), snd (post_events_sqlite b now db))
      \<and> get_events_sqlite (Some a) (Some c) (snd (post_events_sqlite b now db))
          = (reply 200 (JArr (map event_json_sqlite evs)), snd (post_events_sqlite b now db))
      \<and> filter (\<lambda>x. event_id x = event_id r) evs = [r]
      \<and> date r = d \<and> time r = t \<and> title r = ti
      \<and> channel r = (if falsy (b_channel b) then Some [] else b_channel b)
      \<and> platform r = (if falsy (b_platform b) then Some [] else b_platform b)
      \<and> event_notes r = (if falsy (b_notes b) then Some [] else b_notes b)"
  proof -
    define r where "r = \<lparr>event_id = next_id db, date = d, time = t, title = ti,
          channel = or_empty (b_channel b), platform = or_empty (b_platform b),
          event_notes = or_empty (b_notes b), created_at = now, created_by = None\<rparr>"
    have p: "post_events_sqlite b now db
        = (reply 201 (event_json_sqlite r), \<lparr>rows = rows db @ [r], last_id = next_id db\<rparr>)"
      using h by (simp add: post_events_sqlite_ok [OF t] Let_def r_def)
    have "event_id r = next_id db" by (simp add: r_def)
    then have fr: "\<forall>x \<in> set (rows db). event_id x \<noteq> event_id r" by (rule fresh_row)
    have "?P r" using h by (simp add: r_def)
    with fr have once: "filter (\<lambda>x. event_id x = event_id r)
        (sort_key ?k (filter ?P (rows db @ [r]))) = [r]"
      by (rule listed_once)
    have f: "date r = d \<and> time r = t \<and> title r = ti
      \<and> channel r = (if falsy (b_channel b) then Some [] else b_channel b)
      \<and> platform r = (if falsy (b_platform b) then Some [] else b_platform b)
      \<and> event_notes r = (if falsy (b_notes b) then Some [] else b_notes b)"
      by (simp add: r_def or_empty_def)
    show ?thesis
      using h once f
      by (intro exI [of _ r] exI [of _ "sort_key ?k (filter ?P (rows db @ [r]))"])
         (simp add: p get_events_sqlite_ok)
  qed
  show "\<exists>r evs.
          post_events_route b now s
            = (reply 201 (event_json r), snd (post_events_route b now s))
        \<and> get_events_route (Some a) (Some c) (snd (post_events_route b now s))
            = (reply 200 (JArr (map event_json evs)), snd (post_events_route b now s))
        \<and> filter (\<lambda>x. event_id x = event_id r) evs = [r]
        \<and> date r = d \<and> time r = t \<and> title r = ti
        \<and> channel r = (if falsy (b_channel b) then None else b_channel b)
        \<and> platform r = (if falsy (b_platform b) then None else b_platform b)
        \<and> event_notes r = (if falsy (b_notes b) then None else b_notes b)"
    if "session s \<noteq> None"
  proof -
    from that obtain u where u: "session s = Some u" by blast
    define r where "r = \<lparr>event_id = next_id (marketing_events s), date = d, time = t,
          title = ti, channel = or_null (b_channel b), platform = or_null (b_platform b),
          event_notes = or_null (b_notes b), created_at = now,
          created_by = Some (user_id u)\<rparr>"
    define s' where "s' = s\<lparr>marketing_events :=
             \<lparr>rows = rows (marketing_events s) @ [r],
              last_id = next_id (marketing_events s)\<rparr>\<rparr>"
    have p: "post_events_route b now s = (reply 201 (event_json r), s')"
      using h
      by (simp add: post_events_route_def guarded_requireAuth [OF u] post_events_ok [OF t u]
          Let_def r_def s'_def)
    have u': "session s' = Some u" by (simp add: s'_def u)
    have rs: "rows (marketing_events s') = rows (marketing_events s) @ [r]"
      by (simp add: s'_def)
    have "event_id r = next_id (marketing_events s)" by (simp add: r_def)
    then have fr: "\<forall>x \<in> set (rows (marketing_events s)). event_id x \<noteq> event_id r"
      by (rule fresh_row)
    have "?P r" using h by (simp add: r_def)
    with fr have once: "filter (\<lambda>x. event_id x = event_id r)
        (sort_key ?k (filter ?P (rows (marketing_events s) @ [r]))) = [r]"
      by (rule listed_once)
    have f: "date r = d \<and> time r = t \<and> title r = ti
      \<and> channel r = (if falsy (b_channel b) then None else b_channel b)
      \<and> platform r = (if falsy (b_platform b) then None else b_platform b)
      \<and> event_notes r = (if falsy (b_notes b) then None else b_notes b)"
      by (simp add: r_def or_null_def)
    have g: "get_events_route (Some a) (Some c) s'
        = (reply 200 (JArr (map event_json
             (sort_key ?k (filter ?P (rows (marketing_events s) @ [r]))))), s')"
      using h by (simp add: get_events_route_def guarded_requireAuth [OF u'] get_events_ok rs)
    show ?thesis
      using once f
      by (intro exI [of _ r]
            exI [of _ "sort_key ?k (filter ?P (rows (marketing_events s) @ [r]))"])
         (simp add: p g)
  qed
qed

text \<open>
  As it is written, the claim has every submitted field come back verbatim. In the
  Supabase version a create that submits the empty string as channel is answered with
  \<^verbatim>\<open>channel\<close> null, and so is the list that follows.
\<close>

theorem create_then_list_counterexample:
  "b_channel blank_channel = Some []
   \<and> fst (post_events_route blank_channel ''2024-05-22 12:00:00'' sample_server)
       = reply 201
           (JObj [(''id'', JNum 4), (''date'', JStr ''2024-06-02''), (''time'', JStr ''18:30''),
                  (''title'', JStr ''Sorteo''), (''channel'', JNull),
                  (''platform'', JStr ''Instagram''), (''notes'', JStr ''con foto''),
                  (''created_at'', JStr ''2024-05-22 12:00:00''), (''created_by'', JNum 1)])
   \<and> fst (get_events_route (Some ''2024-06-02'') (Some ''2024-06-02'')
            (snd (post_events_route blank_channel ''2024-05-22 12:00:00'' sample_server)))
       = reply 200
           (JArr [JObj [(''id'', JNum 4), (''date'', JStr ''2024-06-02''),
                        (''time'', JStr ''18:30''), (''title'', JStr ''Sorteo''),
                        (''channel'', JNull), (''platform'', JStr ''Instagram''),
                        (''notes'', JStr ''con foto''),
                        (''created_at'', JStr ''2024-05-22 12:00:00''),
                        (''created_by'', JNum 1)]])
   \<and> opt_json (b_channel blank_channel) \<noteq> JNull"
proof -
  have u: "session sample_server
             = Some \<lparr>user_id = 1, email = ''ana@wfg.test'', role = ''admin''\<rparr>"
    by (simp add: sample_server_def)
  have t: "\<not> falsy (b_date blank_channel)" "\<not> falsy (b_time blank_channel)"
      "\<not> falsy (b_title blank_channel)"
    by (simp_all add: blank_channel_def falsy_def)
  have n: "next_id (marketing_events sample_server) = 4"
    by (simp add: next_id_def sample_defs)
  have p: "post_events_route blank_channel ''2024-05-22 12:00:00'' sample_server
      = (reply 201
           (event_json \<lparr>event_id = 4, date = ''2024-06-02'', time = ''18:30'',
              title = ''Sorteo'', channel = None, platform = Some ''Instagram'',
              event_notes = Some ''con foto'', created_at = ''2024-05-22 12:00:00'',
              created_by = Some 1\<rparr>),
         sample_server\<lparr>marketing_events :=
           \<lparr>rows = [historia, reel, tiktok,
                    \<lparr>event_id = 4, date = ''2024-06-02'', time = ''18:30'',
                      title = ''Sorteo'', channel = None, platform = Some ''Instagram'',
                      event_notes = Some ''con foto'', created_at = ''2024-05-22 12:00:00'',
                      created_by = Some 1\<rparr>],
            last_id = 4\<rparr>\<rparr>)"
    unfolding post_events_route_def guarded_requireAuth [OF u] post_events_ok [OF t u] n
    by (simp add: Let_def or_null_def falsy_def blank_channel_def sample_server_def
        sample_table_def)
  show ?thesis
    unfolding p
    by (simp add: get_events_route_def guarded_def requireAuth_def sample_server_def
        get_events_ok event_json_def blank_channel_def historia_def reel_def tiktok_def)
qed

text \<open>
  A create on 2 June 2024 followed by a list over June 2024.
\<close>

theorem create_then_list_witness:
  "b_date blank_channel = Some ''2024-06-02'' \<and> ''2024-06-02'' \<noteq> []
   \<and> b_time blank_channel = Some ''18:30'' \<and> ''18:30'' \<noteq> []
   \<and> b_title blank_channel = Some ''Sorteo'' \<and> ''Sorteo'' \<noteq> []
   \<and> ''2024-06-01'' \<noteq> [] \<and> ''2024-06-30'' \<noteq> []
   \<and> ''2024-06-01'' \<le> ''2024-06-02'' \<and> ''2024-06-02'' \<le> ''2024-06-30''
   \<and> session sample_server \<noteq> None
   \<and> (\<exists>r evs.
        post_events_sqlite blank_channel ''2024-05-22 12:00:00'' sample_table
          = (reply 201 (event_json_sqlite r),
             snd (post_events_sqlite blank_channel ''2024-05-22 12:00:00'' sample_table))
      \<and> get_events_sqlite (Some ''2024-06-01'') (Some ''2024-06-30'')
           (snd (post_events_sqlite blank_channel ''2024-05-22 12:00:00'' sample_table))
          = (reply 200 (JArr (map event_json_sqlite evs)),
             snd (post_events_sqlite blank_channel ''2024-05-22 12:00:00'' sample_table))
      \<and> filter (\<lambda>x. event_id x = event_id r) evs = [r]
      \<and> date r = ''2024-06-02'' \<and> time r = ''18:30'' \<and> title r = ''Sorteo''
      \<and> channel r = Some [] \<and> platform r = Some ''Instagram''
      \<and> event_notes r = Some ''con foto'')
   \<and> (\<exists>r evs.
        post_events_route blank_channel ''2024-05-22 12:00:00'' sample_server
          = (reply 201 (event_json r),
             snd (post_events_route blank_channel ''2024-05-22 12:00:00'' sample_server))
      \<and> get_events_route (Some ''2024-06-01'') (Some ''2024-06-30'')
           (snd (post_events_route blank_channel ''2024-05-22 12:00:00'' sample_server))
          = (reply 200 (JArr (map event_json evs)),
             snd (post_events_route blank_channel ''2024-05-22 12:00:00'' sample_server))
      \<and> filter (\<lambda>x. event_id x = event_id r) evs = [r]
      \<and> date r = ''2024-06-02'' \<and> time r = ''18:30'' \<and> title r = ''Sorteo''
      \<and> channel r = None \<and> platform r = Some ''Instagram''
      \<and> event_notes r = Some ''con foto'')"
proof -
  have h: "b_date blank_channel = Some ''2024-06-02'' \<and> ''2024-06-02'' \<noteq> []
     \<and> b_time blank_channel = Some ''18:30'' \<and> ''18:30'' \<noteq> []
     \<and> b_title blank_channel = Some ''Sorteo'' \<and> ''Sorteo'' \<noteq> []
     \<and> ''2024-06-01'' \<noteq> [] \<and> ''2024-06-30'' \<noteq> []
     \<and> ''2024-06-01'' \<le> ''2024-06-02'' \<and> ''2024-06-02'' \<le> ''2024-06-30''"
    by (simp add: blank_channel_def)
  have s: "session sample_server \<noteq> None" by (simp add: sample_server_def)
  have f: "(if falsy (b_channel blank_channel) then Some [] else b_channel blank_channel)
             = Some []"
      "(if falsy (b_channel blank_channel) then None else b_channel blank_channel) = None"
      "(if falsy (b_platform blank_channel) then Some [] else b_platform blank_channel)
             = Some ''Instagram''"
      "(if falsy (b_platform blank_channel) then None else b_platform blank_channel)
             = Some ''Instagram''"
      "(if falsy (b_notes blank_channel) then Some [] else b_notes blank_channel)
             = Some ''con foto''"
      "(if falsy (b_notes blank_channel) then None else b_notes blank_channel)
             = Some ''con foto''"
    by (simp_all add: blank_channel_def falsy_def)
  note t = create_then_list [where b = blank_channel and d = "''2024-06-02''"
      and t = "''18:30''" and ti = "''Sorteo''" and a = "''2024-06-01''"
      and c = "''2024-06-30''" and now = "''2024-05-22 12:00:00''" and db = sample_table
      and s = sample_server, THEN mp, OF h, unfolded f]
  from t [THEN conjunct1] t [THEN conjunct2, THEN mp, OF s] h s
  show ?thesis by (intro conjI) (elim conjE, assumption)+
qed

section \<open>The two list handlers agree\<close>




section \<open>Validation comes before the lookup\<close>

text \<open>
  Claim C9. An update request whose date, time or title is missing or empty is answered
  with status 400 and never with 404, whatever the id and whatever the table holds, so
  also when no stored event has the id; the table is left as it was. This holds for both
  handlers, and for the Supabase route once \<^verbatim>\<open>requireAuth\<close> has let the request through.
\<close>

theorem update_validation_first:
  "falsy (b_date b) \<or> falsy (b_time b) \<or> falsy (b_title b) \<longrightarrow>
     put_events_sqlite i b db = (reply 400 (error_json msg_campos), db)
   \<and> put_events i b s = (reply 400 (error_json msg_campos), s)
   \<and> (session s \<noteq> None \<longrightarrow>
        put_events_route i b s = (reply 400 (error_json msg_campos), s))
   \<and> status (fst (put_events_sqlite i b db)) \<noteq> 404
   \<and> status (fst (put_events i b s)) \<noteq> 404"
  by (auto simp: put_events_sqlite_def put_events_def put_events_route_def
      guarded_requireAuth reply_def)

text \<open>
  An update without a title for event 9, which is not stored.
\<close>

theorem update_validation_first_witness:
  "falsy (b_title untitled) \<and> session sample_server \<noteq> None
   \<and> put_events_sqlite 9 untitled sample_table = (reply 400 (error_json msg_campos), sample_table)
   \<and> put_events 9 untitled sample_server = (reply 400 (error_json msg_campos), sample_server)
   \<and> put_events_route 9 untitled sample_server
       = (reply 400 (error_json msg_campos), sample_server)
   \<and> status (fst (put_events_sqlite 9 untitled sample_table)) \<noteq> 404
   \<and> status (fst (put_events 9 untitled sample_server)) \<noteq> 404
   \<and> 9 \<notin> event_id ` set (rows sample_table)"
proof -
  have h: "falsy (b_title untitled)" "session sample_server \<noteq> None"
    "9 \<notin> event_id ` set (rows sample_table)"
    by (simp_all add: sample_defs falsy_def)
  note t = update_validation_first [where b = untitled and i = 9 and db = sample_table
      and s = sample_server]
  from t h show ?thesis by blast
qed

section \<open>What login gives away\<close>

text \<open>
  Claim C10. Whatever a login request carries, the answer is one of three error objects
  with a fixed text and the session untouched, or status 200 with the object of the id,
  email and role of a stored user, the session then holding that same projection. So the
  keys of the response body are among \<^verbatim>\<open>error\<close>, \<^verbatim>\<open>id\<close>, \<^verbatim>\<open>email\<close> and \<^verbatim>\<open>role\<close>,
  never \<^verbatim>\<open>password\<close> or \<^verbatim>\<open>active\<close>. Moreover two user tables that differ only in
  stored passwords and active flags give the same body and the same session whenever
  they give the same status: beyond the status, nothing of the password or the active flag
  reaches the response or the session.
\<close>

theorem login_discloses_projection_only:
  "(login em pw s = (reply 400 (error_json msg_login_obligatorios), s)
    \<or> login em pw s = (reply 500 (error_json msg_error_interno), s)
    \<or> login em pw s = (reply 401 (error_json msg_credenciales), s)
    \<or> (\<exists>u \<in> set (marketing_users s).
         login em pw s
           = (reply 200 (JObj [(''id'', JNum (user_id u)), (''email'', JStr (email u)),
                               (''role'', JStr (role u))]),
              s\<lparr>session := Some (projection u)\<rparr>)))
   \<and> set (keys (body (fst (login em pw s)))) \<subseteq> {''error'', ''id'', ''email'', ''role''}
   \<and> ''password'' \<notin> set (keys (body (fst (login em pw s))))
   \<and> ''active'' \<notin> set (keys (body (fst (login em pw s))))
   \<and> (map projection (marketing_users s) = map projection (marketing_users s')
        \<and> session s = session s'
        \<and> status (fst (login em pw s)) = status (fst (login em pw s')) \<longrightarrow>
      body (fst (login em pw s)) = body (fst (login em pw s'))
      \<and> session (snd (login em pw s)) = session (snd (login em pw s')))"
proof -
  note o = login_outcomes [of em pw s]
  have k: "set (keys (body (fst (login em pw s)))) \<subseteq> {''error'', ''id'', ''email'', ''role''}"
  proof -
    from o consider m where "login em pw s = (reply 400 (error_json m), s)"
      | m where "login em pw s = (reply 500 (error_json m), s)"
      | m where "login em pw s = (reply 401 (error_json m), s)"
      | u where "login em pw s
           = (reply 200 (JObj [(''id'', JNum (user_id u)), (''email'', JStr (email u)),
                               (''role'', JStr (role u))]),
              s\<lparr>session := Some (projection u)\<rparr>)"
      by blast
    then show ?thesis
      by cases (simp_all add: error_json_def)
  qed
  have n: "x \<notin> set (keys (body (fst (login em pw s))))"
    if "x \<notin> {''error'', ''id'', ''email'', ''role''}" for x
    using k that by (rule contra_subsetD)
  show ?thesis
  proof (intro conjI impI)
    show "login em pw s = (reply 400 (error_json msg_login_obligatorios), s)
      \<or> login em pw s = (reply 500 (error_json msg_error_interno), s)
      \<or> login em pw s = (reply 401 (error_json msg_credenciales), s)
      \<or> (\<exists>u \<in> set (marketing_users s).
           login em pw s
             = (reply 200 (JObj [(''id'', JNum (user_id u)), (''email'', JStr (email u)),
                                 (''role'', JStr (role u))]),
                s\<lparr>session := Some (projection u)\<rparr>))"
      by (rule o)
    show "set (keys (body (fst (login em pw s)))) \<subseteq> {''error'', ''id'', ''email'', ''role''}"
      by (rule k)
    show "''password'' \<notin> set (keys (body (fst (login em pw s))))"
      by (rule n) simp
    show "''active'' \<notin> set (keys (body (fst (login em pw s))))"
      by (rule n) simp
  next
    assume a: "map projection (marketing_users s) = map projection (marketing_users s')
        \<and> session s = session s'
        \<and> status (fst (login em pw s)) = status (fst (login em pw s'))"
    then show "body (fst (login em pw s)) = body (fst (login em pw s'))"
      and "session (snd (login em pw s)) = session (snd (login em pw s'))"
      using login_same_projection [of s s' em pw] by simp_all
  qed
qed

text \<open>
  Two user tables that differ in a password and an active flag, and a login that succeeds
  on both.
\<close>

theorem login_discloses_projection_only_witness:
  "map projection (marketing_users anonymous) = map projection (marketing_users other_secrets)
   \<and> session anonymous = session other_secrets
   \<and> status (fst (login (Some ''ana@wfg.test'') (Some ''s3creto'') anonymous))
       = status (fst (login (Some ''ana@wfg.test'') (Some ''s3creto'') other_secrets))
   \<and> body (fst (login (Some ''ana@wfg.test'') (Some ''s3creto'') anonymous))
       = body (fst (login (Some ''ana@wfg.test'') (Some ''s3creto'') other_secrets))
   \<and> session (snd (login (Some ''ana@wfg.test'') (Some ''s3creto'') anonymous))
       = session (snd (login (Some ''ana@wfg.test'') (Some ''s3creto'') other_secrets))
   \<and> body (fst (login (Some ''ana@wfg.test'') (Some ''s3creto'') anonymous))
       = JObj [(''id'', JNum 1), (''email'', JStr ''ana@wfg.test''), (''role'', JStr ''admin'')]
   \<and> set (keys (body (fst (login (Some ''ana@wfg.test'') (Some ''s3creto'') anonymous))))
       \<subseteq> {''error'', ''id'', ''email'', ''role''}
   \<and> ''password'' \<notin> set (keys (body (fst (login (Some ''ana@wfg.test'') (Some ''s3creto'')
                                               anonymous))))
   \<and> ''active'' \<notin> set (keys (body (fst (login (Some ''ana@wfg.test'') (Some ''s3creto'')
                                             anonymous))))"
proof -
  have l: "login (Some ''ana@wfg.test'') (Some ''s3creto'') anonymous
       = (reply 200 (JObj [(''id'', JNum 1), (''email'', JStr ''ana@wfg.test''),
                           (''role'', JStr ''admin'')]),
          anonymous\<lparr>session := Some (projection ana)\<rparr>)"
    by (simp add: login_rows falsy_def) (simp add: sample_defs)
  have l': "login (Some ''ana@wfg.test'') (Some ''s3creto'') other_secrets
       = (reply 200 (JObj [(''id'', JNum 1), (''email'', JStr ''ana@wfg.test''),
                           (''role'', JStr ''admin'')]),
          other_secrets\<lparr>session := Some (projection ana)\<rparr>)"
    by (simp add: login_rows falsy_def) (simp add: sample_defs)
  have h: "map projection (marketing_users anonymous)
             = map projection (marketing_users other_secrets)
           \<and> session anonymous = session other_secrets
           \<and> status (fst (login (Some ''ana@wfg.test'') (Some ''s3creto'') anonymous))
               = status (fst (login (Some ''ana@wfg.test'') (Some ''s3creto'') other_secrets))"
    unfolding l l' by (simp add: sample_defs projection_def)
  have b: "body (fst (login (Some ''ana@wfg.test'') (Some ''s3creto'') anonymous))
       = JObj [(''id'', JNum 1), (''email'', JStr ''ana@wfg.test''), (''role'', JStr ''admin'')]"
    unfolding l by simp
  note t = login_discloses_projection_only [where em = "Some ''ana@wfg.test''"
      and pw = "Some ''s3creto''" and s = anonymous and s' = other_secrets]
  from t [THEN conjunct2, THEN conjunct2, THEN conjunct2, THEN conjunct2, THEN mp, OF h]
    t [THEN conjunct2, THEN conjunct1]
    t [THEN conjunct2, THEN conjunct2, THEN conjunct1]
    t [THEN conjunct2, THEN conjunct2, THEN conjunct2, THEN conjunct1]
    h b
  show ?thesis by (intro conjI) (elim conjE, assumption)+
qed

end
